theory Spec2Isabelle
  imports Complex_Main "HOL-Library.Sublist" "HOL-Library.Multiset"
begin

section \<open>Python values used by the fact checker\<close>

text \<open>
  A Python \<open>str\<close> is modelled as a \<open>string\<close>: one \<open>char\<close> per code point, for the code
  points below 256. The character classes below are the ones CPython uses for these code
  points (\<open>str.isspace\<close>, \<open>str.lower\<close>, and the classes \<open>\s\<close>, \<open>\d\<close>, \<open>\w\<close> of
  the \<open>re\<close> module on \<open>str\<close> patterns). Python's \<open>float\<close> is modelled by \<open>real\<close>:
  the arithmetic of the source is read as exact arithmetic.
\<close>

definition py_isspace :: "char \<Rightarrow> bool" where
  "py_isspace c = (of_char c \<in> {9, 10, 11, 12, 13, 28, 29, 30, 31, 32, 133, 160 :: nat})"

definition py_isdigit :: "char \<Rightarrow> bool" where
  "py_isdigit c = (48 \<le> (of_char c :: nat) \<and> (of_char c :: nat) \<le> 57)"

definition py_isupper_ascii :: "char \<Rightarrow> bool" where
  "py_isupper_ascii c = (65 \<le> (of_char c :: nat) \<and> (of_char c :: nat) \<le> 90)"

definition py_islower_ascii :: "char \<Rightarrow> bool" where
  "py_islower_ascii c = (97 \<le> (of_char c :: nat) \<and> (of_char c :: nat) \<le> 122)"

definition py_isalpha_ascii :: "char \<Rightarrow> bool" where
  "py_isalpha_ascii c = (py_isupper_ascii c \<or> py_islower_ascii c)"

definition py_isword :: "char \<Rightarrow> bool" where
  "py_isword c =
     (let n = (of_char c :: nat) in
        py_isalpha_ascii c \<or> py_isdigit c \<or> n = 95 \<or>
        n \<in> {170, 178, 179, 181, 185, 186, 188, 189, 190} \<or>
        (192 \<le> n \<and> n \<le> 214) \<or> (216 \<le> n \<and> n \<le> 246) \<or> 248 \<le> n)"

definition py_lower_char :: "char \<Rightarrow> char" where
  "py_lower_char c =
     (let n = (of_char c :: nat) in
        if (65 \<le> n \<and> n \<le> 90) \<or> (192 \<le> n \<and> n \<le> 222 \<and> n \<noteq> 215)
        then char_of (n + 32) else c)"

text \<open>\<open>s.lower()\<close>\<close>

definition lower :: "string \<Rightarrow> string" where
  "lower s = map py_lower_char s"

text \<open>\<open>s.strip()\<close>\<close>

definition strip :: "string \<Rightarrow> string" where
  "strip s = rev (dropWhile py_isspace (rev (dropWhile py_isspace s)))"

text \<open>\<open>w in s\<close> for two strings: \<open>w\<close> occurs in \<open>s\<close> as a contiguous substring.\<close>

definition str_in :: "string \<Rightarrow> string \<Rightarrow> bool" where
  "str_in w s = sublist w s"

text \<open>\<open>s.split()\<close>: the maximal runs of characters that are not whitespace.\<close>

fun split_acc :: "string \<Rightarrow> string \<Rightarrow> string list" where
  "split_acc w [] = (if w = [] then [] else [rev w])"
| "split_acc w (c # cs) =
     (if py_isspace c
      then (if w = [] then split_acc [] cs else rev w # split_acc [] cs)
      else split_acc (c # w) cs)"

definition split :: "string \<Rightarrow> string list" where
  "split s = split_acc [] s"

text \<open>
  \<open>s.find(sub)\<close> and \<open>s.find(sub, start)\<close> for \<open>start \<ge> 0\<close>: the lowest index at
  which \<open>sub\<close> occurs, \<open>-1\<close> when it does not.
\<close>

fun find_aux :: "string \<Rightarrow> string \<Rightarrow> int \<Rightarrow> int" where
  "find_aux sub [] i = (if sub = [] then i else - 1)"
| "find_aux sub (c # cs) i = (if prefix sub (c # cs) then i else find_aux sub cs (i + 1))"

definition str_find :: "string \<Rightarrow> string \<Rightarrow> int" where
  "str_find s sub = find_aux sub s 0"

definition str_find_from :: "string \<Rightarrow> string \<Rightarrow> int \<Rightarrow> int" where
  "str_find_from s sub start =
     (if int (length s) < start then - 1 else find_aux sub (drop (nat start) s) start)"

text \<open>The slices \<open>xs[k:]\<close> and \<open>xs[:k]\<close>; a negative \<open>k\<close> counts from the end.\<close>

definition slice_from :: "int \<Rightarrow> 'a list \<Rightarrow> 'a list" where
  "slice_from k xs = (if k < 0 then drop (nat (int (length xs) + k)) xs else drop (nat k) xs)"

definition slice_to :: "int \<Rightarrow> 'a list \<Rightarrow> 'a list" where
  "slice_to k xs = (if k < 0 then take (nat (int (length xs) + k)) xs else take (nat k) xs)"

text \<open>The exceptions the modelled code can raise, with the message \<open>str(e)\<close> gives.\<close>

datatype error =
    AttributeError string
  | KeyError string
  | TypeError string
  | JSONDecodeError string
  | ValidationError string
  | OtherException string

fun error_message :: "error \<Rightarrow> string" where
  "error_message (AttributeError m) = m"
| "error_message (KeyError m) = m"
| "error_message (TypeError m) = m"
| "error_message (JSONDecodeError m) = m"
| "error_message (ValidationError m) = m"
| "error_message (OtherException m) = m"

section \<open>The in-memory store (models/memory_store.py)\<close>

record result =
  result_id :: int
  result_claim :: string
  result_verdict :: string
  result_confidence_score :: real
  result_explanation :: string
  result_processing_time_ms :: "int option"
  result_timestamp :: string
  result_sources :: "string option"
  result_session_id :: "string option"

record memory_store =
  store :: "result list"
  counter :: int

text \<open>\<open>MemoryStore.__init__\<close>\<close>

definition init_store :: memory_store where
  "init_store = \<lparr>store = [], counter = 1\<rparr>"

text \<open>
  \<open>MemoryStore.add_result\<close>. The clock reading \<open>datetime.utcnow().isoformat()\<close> is the
  parameter \<open>now\<close>. The updated store and the stored record are returned.
\<close>

definition add_result ::
  "memory_store \<Rightarrow> string \<Rightarrow> string \<Rightarrow> string \<Rightarrow> real \<Rightarrow> string \<Rightarrow> int option \<Rightarrow>
   string option \<Rightarrow> string option \<Rightarrow> memory_store \<times> result" where
  "add_result self now claim verdict confidence_score explanation processing_time_ms
     sources session_id =
     (let r = \<lparr>result_id = counter self, result_claim = claim, result_verdict = verdict,
                result_confidence_score = confidence_score, result_explanation = explanation,
                result_processing_time_ms = processing_time_ms, result_timestamp = now,
                result_sources = sources, result_session_id = session_id\<rparr>
      in (\<lparr>store = store self @ [r], counter = counter self + 1\<rparr>, r))"

text \<open>
  An \<open>Optional[int]\<close> argument is truthy when it is neither \<open>None\<close> nor \<open>0\<close>.
\<close>

definition truthy :: "int option \<Rightarrow> bool" where
  "truthy v = (case v of None \<Rightarrow> False | Some n \<Rightarrow> n \<noteq> 0)"

text \<open>
  \<open>sorted(self._store, key=lambda x: x["id"], reverse=True)\<close>: a stable sort by
  descending id.
\<close>

definition sorted_desc :: "result list \<Rightarrow> result list" where
  "sorted_desc rs = sort_key (\<lambda>r. - result_id r) rs"

text \<open>\<open>MemoryStore.get_all\<close>\<close>

definition get_all :: "memory_store \<Rightarrow> int option \<Rightarrow> int option \<Rightarrow> result list" where
  "get_all self limit offset =
     (let results = sorted_desc (store self);
          results = (if truthy offset then slice_from (the offset) results else results);
          results = (if truthy limit then slice_to (the limit) results else results)
      in results)"

text \<open>
  A sequence of \<open>add_result\<close> calls; each input is the clock reading and the seven
  arguments of one call.
\<close>

type_synonym result_input =
  "string \<times> string \<times> string \<times> real \<times> string \<times> int option \<times> string option \<times> string option"

fun add_results :: "memory_store \<Rightarrow> result_input list \<Rightarrow> memory_store" where
  "add_results self [] = self"
| "add_results self ((now, c, v, cs, e, p, so, se) # rest) =
     add_results (fst (add_result self now c v cs e p so se)) rest"

section \<open>The history endpoint (main.py)\<close>

record HistoryResponse =
  hr_id :: int
  hr_claim :: string
  hr_verdict :: string
  hr_confidence_score :: real
  hr_explanation :: string
  hr_timestamp :: string

text \<open>The values of \<open>VerdictEnum\<close> (models/schemas.py).\<close>

definition VerdictEnum :: "string list" where
  "VerdictEnum = [''True'', ''False'', ''Partially True'', ''Requires Investigation'',
                  ''Requires Context'', ''Unverified'']"

text \<open>
  The validation the \<open>HistoryResponse\<close> schema runs on construction: the verdict is a
  value of \<open>VerdictEnum\<close> and the confidence score lies in \<open>[0, 100]\<close>. (The timestamp
  written by \<open>add_result\<close> is an ISO-8601 string and always parses.)
\<close>

definition history_valid :: "result \<Rightarrow> bool" where
  "history_valid r =
     (result_verdict r \<in> set VerdictEnum \<and> 0 \<le> result_confidence_score r \<and> result_confidence_score r \<le> 100)"

definition history_item :: "result \<Rightarrow> HistoryResponse" where
  "history_item r =
     \<lparr>hr_id = result_id r, hr_claim = result_claim r, hr_verdict = result_verdict r,
      hr_confidence_score = result_confidence_score r,
      hr_explanation = (if length (result_explanation r) > 200
                        then take 200 (result_explanation r) @ ''...'' else result_explanation r),
      hr_timestamp = result_timestamp r\<rparr>"

text \<open>
  \<open>get_history\<close>: any exception (here: a record the schema refuses) becomes the HTTP 500
  error of the handler, modelled as \<open>Inl\<close>.
\<close>

definition get_history ::
  "memory_store \<Rightarrow> int option \<Rightarrow> int option \<Rightarrow> error + HistoryResponse list" where
  "get_history ms limit offset =
     (let results = get_all ms limit offset in
        if list_all history_valid results then Inr (map history_item results)
        else Inl (ValidationError ''Failed to retrieve history''))"

section \<open>Category-based confidence adjustment (services/llama_service.py)\<close>

datatype ClaimCategory =
    SCIENTIFIC | MATHEMATICAL | HISTORICAL | GEOGRAPHICAL | BIOGRAPHICAL | STATISTICAL
  | TECHNOLOGICAL | MEDICAL | LEGAL | ECONOMIC | POLITICAL | CULTURAL | LINGUISTIC
  | DEFINITIONAL | COMPARATIVE | TEMPORAL | CAUSAL | PREDICTIVE | OPINION_BASED | GENERAL

text \<open>
  \<open>_adjust_confidence_by_category\<close> on a numeric confidence. The \<open>config\<close> argument is
  only read for a threshold that the function never uses; it is kept as a parameter.
\<close>

definition adjust_confidence_by_category :: "real \<Rightarrow> ClaimCategory \<Rightarrow> 'cfg \<Rightarrow> real" where
  "adjust_confidence_by_category confidence category config =
     (if category = MATHEMATICAL then
        (if confidence > 90 then min confidence 99.5 else confidence * 0.8)
      else if category = MEDICAL then min (confidence * 0.9) 85.0
      else if category = OPINION_BASED then min confidence 60.0
      else if category = SCIENTIFIC then
        (if confidence < 70 then confidence * 0.85 else confidence)
      else confidence)"

section \<open>The regular expressions of the \<open>re\<close> module\<close>

text \<open>
  The patterns of the source are written as terms of \<open>rx\<close> and run by a backtracking
  matcher with the semantics of Python's \<open>re\<close>: alternatives are tried from the left,
  repetitions are greedy and give back one iteration at a time. \<open>Rep n r\<close> matches at most
  \<open>n\<close> iterations of \<open>r\<close>; an unbounded repetition (\<open>*\<close>, \<open>+\<close>) is \<open>Rep n\<close> with
  \<open>n\<close> the length of the subject string, which no match can exceed because every
  repeated pattern of the source consumes at least one character. \<open>Grp\<close> is the capturing
  group number 1, \<open>Bnd\<close> the word boundary \<open>\b\<close>.
\<close>

datatype rx =
    Eps
  | Chr "char \<Rightarrow> bool"
  | Bnd
  | Seq rx rx
  | Alt rx rx
  | Rep nat rx
  | Grp rx

text \<open>
  A matcher state: the character before the current position (if any), the rest of the
  subject, and the text of group 1 (if set).
\<close>

type_synonym mstate = "char option \<times> string \<times> string option"

definition at_boundary :: "char option \<Rightarrow> string \<Rightarrow> bool" where
  "at_boundary prev rest =
     ((case prev of None \<Rightarrow> False | Some c \<Rightarrow> py_isword c) \<noteq>
      (case rest of [] \<Rightarrow> False | c # _ \<Rightarrow> py_isword c))"

fun rx_weight :: "rx \<Rightarrow> nat" where
  "rx_weight Eps = 1"
| "rx_weight (Chr p) = 1"
| "rx_weight Bnd = 1"
| "rx_weight (Seq a b) = 1 + rx_weight a + rx_weight b"
| "rx_weight (Alt a b) = 1 + rx_weight a + rx_weight b"
| "rx_weight (Rep n a) = 1 + n + rx_weight a"
| "rx_weight (Grp a) = 1 + rx_weight a"

text \<open>
  \<open>rmatch r st\<close> lists the states in which a match of \<open>r\<close> from \<open>st\<close> can end, in the
  order in which the backtracking matcher tries them: the first state that lets the rest
  of the pattern succeed is the one Python takes.
\<close>

function rmatch :: "rx \<Rightarrow> mstate \<Rightarrow> mstate list" where
  "rmatch Eps st = [st]"
| "rmatch (Chr p) (prev, rest, g) =
     (case rest of [] \<Rightarrow> [] | c # cs \<Rightarrow> if p c then [(Some c, cs, g)] else [])"
| "rmatch Bnd (prev, rest, g) = (if at_boundary prev rest then [(prev, rest, g)] else [])"
| "rmatch (Seq a b) st = concat (map (rmatch b) (rmatch a st))"
| "rmatch (Alt a b) st = rmatch a st @ rmatch b st"
| "rmatch (Rep 0 a) st = [st]"
| "rmatch (Rep (Suc n) a) st = concat (map (rmatch (Rep n a)) (rmatch a st)) @ [st]"
| "rmatch (Grp a) (prev, rest, g) =
     map (\<lambda>(prev', rest', g'). (prev', rest', Some (take (length rest - length rest') rest)))
         (rmatch a (prev, rest, g))"
  by pat_completeness auto
termination
  by (relation "measure (\<lambda>(r, st). rx_weight r)") auto

text \<open>A match of \<open>r\<close> starting at the current position: the matched text and group 1.\<close>

definition match_here :: "rx \<Rightarrow> char option \<Rightarrow> string \<Rightarrow> (string \<times> string option) option" where
  "match_here r prev s =
     (case rmatch r (prev, s, None) of
        [] \<Rightarrow> None
      | (prev', rest', g') # others \<Rightarrow> Some (take (length s - length rest') s, g'))"

text \<open>\<open>re.search\<close>: the leftmost match.\<close>

fun search_from :: "rx \<Rightarrow> char option \<Rightarrow> string \<Rightarrow> (string \<times> string option) option" where
  "search_from r prev [] = match_here r prev []"
| "search_from r prev (c # cs) =
     (case match_here r prev (c # cs) of
        Some m \<Rightarrow> Some m
      | None \<Rightarrow> search_from r (Some c) cs)"

definition re_search :: "rx \<Rightarrow> string \<Rightarrow> (string \<times> string option) option" where
  "re_search r s = search_from r None s"

text \<open>
  \<open>re.findall\<close> for a pattern without capturing groups: the matched texts, from left to
  right, each search starting where the previous match ended (one character further after
  an empty match). \<open>skip\<close> counts the characters still covered by the previous match.
\<close>

fun findall_from :: "rx \<Rightarrow> char option \<Rightarrow> nat \<Rightarrow> string \<Rightarrow> string list" where
  "findall_from r prev skip [] =
     (if skip = 0 then (case match_here r prev [] of None \<Rightarrow> [] | Some (m, g) \<Rightarrow> [m]) else [])"
| "findall_from r prev skip (c # cs) =
     (if skip > 0 then findall_from r (Some c) (skip - 1) cs
      else (case match_here r prev (c # cs) of
              None \<Rightarrow> findall_from r (Some c) 0 cs
            | Some (m, g) \<Rightarrow> m # findall_from r (Some c) (length m - 1) cs))"

definition re_findall :: "rx \<Rightarrow> string \<Rightarrow> string list" where
  "re_findall r s = findall_from r None 0 s"

text \<open>\<open>re.sub\<close> with a constant replacement, for a pattern that matches no empty text.\<close>

fun sub_from :: "rx \<Rightarrow> string \<Rightarrow> char option \<Rightarrow> nat \<Rightarrow> string \<Rightarrow> string" where
  "sub_from r repl prev skip [] = []"
| "sub_from r repl prev skip (c # cs) =
     (if skip > 0 then sub_from r repl (Some c) (skip - 1) cs
      else (case match_here r prev (c # cs) of
              None \<Rightarrow> c # sub_from r repl (Some c) 0 cs
            | Some (m, g) \<Rightarrow> repl @ sub_from r repl (Some c) (length m - 1) cs))"

definition re_sub :: "rx \<Rightarrow> string \<Rightarrow> string \<Rightarrow> string" where
  "re_sub r repl s = sub_from r repl None 0 s"

text \<open>\<open>re.split\<close> for a pattern without groups that matches no empty text.\<close>

fun split_from :: "rx \<Rightarrow> string \<Rightarrow> char option \<Rightarrow> nat \<Rightarrow> string \<Rightarrow> string list" where
  "split_from r piece prev skip [] = [rev piece]"
| "split_from r piece prev skip (c # cs) =
     (if skip > 0 then split_from r piece (Some c) (skip - 1) cs
      else (case match_here r prev (c # cs) of
              None \<Rightarrow> split_from r (c # piece) (Some c) 0 cs
            | Some (m, g) \<Rightarrow> rev piece # split_from r [] (Some c) (length m - 1) cs))"

definition re_split :: "rx \<Rightarrow> string \<Rightarrow> string list" where
  "re_split r s = split_from r [] None 0 s"

text \<open>Pattern combinators.\<close>

definition seqs :: "rx list \<Rightarrow> rx" where
  "seqs rs = foldr Seq rs Eps"

fun alts :: "rx list \<Rightarrow> rx" where
  "alts [] = Chr (\<lambda>c. False)"
| "alts [r] = r"
| "alts (r # rs) = Alt r (alts rs)"

definition rx_star :: "nat \<Rightarrow> rx \<Rightarrow> rx" where
  "rx_star n r = Rep n r"

definition rx_plus :: "nat \<Rightarrow> rx \<Rightarrow> rx" where
  "rx_plus n r = Seq r (Rep n r)"

definition rx_opt :: "rx \<Rightarrow> rx" where
  "rx_opt r = Rep 1 r"

text \<open>One given character; a literal text; the same under \<open>re.IGNORECASE\<close> (the literal
  is written in lower case).\<close>

definition rx_chr :: "char \<Rightarrow> rx" where
  "rx_chr a = Chr (\<lambda>c. c = a)"

definition rx_lit :: "string \<Rightarrow> rx" where
  "rx_lit w = seqs (map rx_chr w)"

definition rx_lit_i :: "string \<Rightarrow> rx" where
  "rx_lit_i w = seqs (map (\<lambda>a. Chr (\<lambda>c. py_lower_char c = a)) w)"

text \<open>\<open>\d\<close>, \<open>\s\<close>, \<open>[a-zA-Z]\<close> (also \<open>[A-Z]\<close> and \<open>[a-z]\<close> under \<open>re.IGNORECASE\<close>), and
  \<open>.\<close> under \<open>re.DOTALL\<close>.\<close>

definition rx_digit :: rx where "rx_digit = Chr py_isdigit"
definition rx_space :: rx where "rx_space = Chr py_isspace"
definition rx_alpha :: rx where "rx_alpha = Chr py_isalpha_ascii"
definition rx_any :: rx where "rx_any = Chr (\<lambda>c. True)"

section \<open>The claim preprocessor (services/pathway_service.py)\<close>

text \<open>\<open>sep.join(xs)\<close>\<close>

fun join :: "string \<Rightarrow> string list \<Rightarrow> string" where
  "join sep [] = []"
| "join sep [x] = x"
| "join sep (x # y # ys) = x @ sep @ join sep (y # ys)"

text \<open>
  \<open>list(set(xs))\<close>: the distinct elements of \<open>xs\<close>. Python leaves the order of a set
  unspecified; the model lists the elements in the order of their last occurrence, and
  nothing proved below depends on that order.
\<close>

definition list_set :: "string list \<Rightarrow> string list" where
  "list_set xs = remdups xs"

text \<open>
  \<open>PathwayProcessor._normalize_text\<close>. The third substitution of the source replaces the
  en dash and the em dash; both lie beyond code point 255, so on the strings of this model
  it changes nothing.
\<close>

definition normalize_text :: "string \<Rightarrow> string" where
  "normalize_text text =
     (let text = re_sub (rx_plus (length text) rx_space) '' '' (strip text);
          text = re_sub (Chr (\<lambda>c. c = CHR 0x22 \<or> c = CHR 0x60)) [CHR 0x22] text
      in text)"

text \<open>
  \<open>self.entity_patterns\<close>, each pattern as it is compiled with \<open>re.IGNORECASE\<close>, for a
  subject of length \<open>n\<close>:
  \<^item> numbers: \<^verbatim>\<open>\b\d+(?:\.\d+)?\b\<close>
  \<^item> dates: \<^verbatim>\<open>\b\d{4}[-/]\d{1,2}[-/]\d{1,2}\b|\b\d{1,2}[-/]\d{1,2}[-/]\d{4}\b\<close>
  \<^item> places: \<^verbatim>\<open>\b[A-Z][a-z]+(?:\s+[A-Z][a-z]+)*\b\<close>
  \<^item> measurements:
    \<^verbatim>\<open>\b\d+(?:\.\d+)?\s*(?:meters?|feet|km|miles?|kg|pounds?|celsius|fahrenheit)\b\<close>
\<close>

definition rx_date_sep :: rx where
  "rx_date_sep = Chr (\<lambda>c. c = CHR ''-'' \<or> c = CHR ''/'')"

definition rx_decimal :: "nat \<Rightarrow> rx" where
  "rx_decimal n = seqs [rx_plus n rx_digit, rx_opt (seqs [rx_chr (CHR ''.''), rx_plus n rx_digit])]"

definition entity_patterns :: "nat \<Rightarrow> (string \<times> rx) list" where
  "entity_patterns n =
     [(''numbers'', seqs [Bnd, rx_decimal n, Bnd]),
      (''dates'',
         Alt (seqs [Bnd, rx_digit, rx_digit, rx_digit, rx_digit, rx_date_sep,
                    rx_digit, rx_opt rx_digit, rx_date_sep, rx_digit, rx_opt rx_digit, Bnd])
             (seqs [Bnd, rx_digit, rx_opt rx_digit, rx_date_sep, rx_digit, rx_opt rx_digit,
                    rx_date_sep, rx_digit, rx_digit, rx_digit, rx_digit, Bnd])),
      (''places'',
         seqs [Bnd, rx_alpha, rx_plus n rx_alpha,
               rx_star n (seqs [rx_plus n rx_space, rx_alpha, rx_plus n rx_alpha]), Bnd]),
      (''measurements'',
         seqs [Bnd, rx_decimal n, rx_star n rx_space,
               alts [seqs [rx_lit_i ''meter'', rx_opt (rx_lit_i ''s'')],
                     rx_lit_i ''feet'', rx_lit_i ''km'',
                     seqs [rx_lit_i ''mile'', rx_opt (rx_lit_i ''s'')],
                     rx_lit_i ''kg'',
                     seqs [rx_lit_i ''pound'', rx_opt (rx_lit_i ''s'')],
                     rx_lit_i ''celsius'', rx_lit_i ''fahrenheit''],
               Bnd])]"

text \<open>\<open>PathwayProcessor._extract_entities\<close>: a dictionary, in insertion order.\<close>

definition extract_entities :: "string \<Rightarrow> (string \<times> string list) list" where
  "extract_entities claim =
     map (\<lambda>(entity_type, pattern). (entity_type, list_set (re_findall pattern claim)))
         (entity_patterns (length claim))"

text \<open>\<open>dict.get(key)\<close> on such a dictionary, with the empty list for a missing key.\<close>

definition entity_list :: "(string \<times> string list) list \<Rightarrow> string \<Rightarrow> string list" where
  "entity_list d key = (case map_of d key of None \<Rightarrow> [] | Some xs \<Rightarrow> xs)"

text \<open>\<open>any(word in text for word in words)\<close>\<close>

definition any_in :: "string list \<Rightarrow> string \<Rightarrow> bool" where
  "any_in words text = list_ex (\<lambda>word. str_in word text) words"

text \<open>\<open>PathwayProcessor._classify_claim_type\<close>\<close>

definition classify_claim_type :: "string \<Rightarrow> string" where
  "classify_claim_type claim =
     (let claim_lower = lower claim in
        if any_in [''taller'', ''shorter'', ''bigger'', ''smaller'', ''meters'', ''feet'', ''height'']
             claim_lower then ''measurement''
        else if any_in [''when'', ''year'', ''date'', ''happened'', ''occurred''] claim_lower
          then ''temporal''
        else if any_in [''where'', ''located'', ''city'', ''country'', ''place''] claim_lower
          then ''geographical''
        else if any_in [''who'', ''person'', ''people'', ''president'', ''ceo''] claim_lower
          then ''biographical''
        else if any_in [''what'', ''is'', ''definition'', ''means''] claim_lower
          then ''definitional''
        else if any_in [''more'', ''less'', ''than'', ''compared'', ''versus''] claim_lower
          then ''comparative''
        else ''general'')"

text \<open>\<open>PathwayProcessor._extract_key_terms\<close>; the word pattern is \<^verbatim>\<open>\b[a-zA-Z]+\b\<close>.\<close>

definition stop_words :: "string list" where
  "stop_words =
     [''the'', ''is'', ''are'', ''was'', ''were'', ''a'', ''an'', ''and'', ''or'', ''but'',
      ''in'', ''on'', ''at'', ''to'', ''for'', ''of'', ''with'', ''by'', ''that'', ''this'',
      ''than'', ''more'', ''less'', ''taller'', ''shorter'']"

definition extract_key_terms :: "string \<Rightarrow> string list" where
  "extract_key_terms claim =
     (let words = re_findall (seqs [Bnd, rx_plus (length claim) rx_alpha, Bnd]) (lower claim);
          key_terms = filter (\<lambda>word. word \<notin> set stop_words \<and> length word > 2) words
      in list_set key_terms)"

text \<open>\<open>PathwayProcessor._calculate_complexity\<close>; the number pattern is \<^verbatim>\<open>\b\d+\<close>.\<close>

definition subordinate_words :: "string list" where
  "subordinate_words =
     [''that'', ''which'', ''who'', ''where'', ''when'', ''because'', ''since'', ''although'']"

definition rx_digit_run :: "nat \<Rightarrow> rx" where
  "rx_digit_run n = seqs [Bnd, rx_plus n rx_digit]"

definition calculate_complexity :: "string \<Rightarrow> real" where
  "calculate_complexity claim =
     (let score = 0.0;
          word_count = length (split claim);
          score = score + min (real word_count / 10) 1.0;
          score = score + sum_list (map (\<lambda>word. 0.2)
                            (filter (\<lambda>word. str_in word (lower claim)) subordinate_words));
          score = score + real (length (re_findall (rx_digit_run (length claim)) claim)) * 0.3
      in min score 5.0)"

text \<open>\<open>PathwayProcessor._analyze_claim_structure\<close>\<close>

record claim_structure =
  is_question :: bool
  is_comparative :: bool
  has_negation :: bool
  has_quantifier :: bool
  sentence_length :: nat
  complexity_score :: real

definition endswith :: "string \<Rightarrow> string \<Rightarrow> bool" where
  "endswith s suffix' = suffix suffix' s"

definition analyze_claim_structure :: "string \<Rightarrow> claim_structure" where
  "analyze_claim_structure claim =
     \<lparr>is_question = endswith (strip claim) ''?'',
      is_comparative = any_in [''than'', ''compared'', ''versus'', ''more'', ''less''] (lower claim),
      has_negation = any_in [''not'', ''never'', ''no'', ''n'' @ [CHR 0x27] @ ''t'', ''false'']
                       (lower claim),
      has_quantifier = (re_search (rx_digit_run (length claim)) claim \<noteq> None),
      sentence_length = length (split claim),
      complexity_score = calculate_complexity claim\<rparr>"

text \<open>\<open>PathwayProcessor._generate_search_queries\<close>\<close>

definition generate_search_queries :: "string \<Rightarrow> string list" where
  "generate_search_queries claim =
     (let key_terms = extract_key_terms claim;
          entities = extract_entities claim;
          queries = [claim];
          queries = queries @ map (\<lambda>place. place @ '' facts information'')
                                 (take 2 (entity_list entities ''places''));
          queries = queries @ map (\<lambda>number. number @ '' '' @ join '' '' (take 3 key_terms))
                                 (take 2 (entity_list entities ''numbers''));
          queries = (if length key_terms \<ge> 3 then queries @ [join '' '' (take 5 key_terms)]
                     else queries)
      in take 5 queries)"

text \<open>
  The dictionary that \<open>preprocess_claim\<close> and \<open>_basic_preprocessing\<close> build. The key
  \<open>preprocessing_method\<close> is present only in the second.
\<close>

record processed_claim =
  pc_original_claim :: string
  pc_normalized_claim :: string
  pc_entities :: "(string \<times> string list) list"
  pc_claim_type :: string
  pc_key_terms :: "string list"
  pc_structure :: claim_structure
  pc_search_queries :: "string list"
  pc_timestamp :: string
  pc_preprocessing_method :: "string option"

text \<open>
  \<open>PathwayProcessor._basic_preprocessing\<close>; \<open>now\<close> is the clock reading
  \<open>datetime.utcnow().isoformat()\<close>.
\<close>

definition basic_preprocessing :: "string \<Rightarrow> string \<Rightarrow> processed_claim" where
  "basic_preprocessing now claim =
     \<lparr>pc_original_claim = strip claim,
      pc_normalized_claim = normalize_text claim,
      pc_entities = extract_entities claim,
      pc_claim_type = classify_claim_type claim,
      pc_key_terms = extract_key_terms claim,
      pc_structure = analyze_claim_structure claim,
      pc_search_queries = generate_search_queries claim,
      pc_timestamp = now,
      pc_preprocessing_method = Some ''basic''\<rparr>"

text \<open>
  The body of the \<open>try\<close> block of \<open>preprocess_claim\<close>. The call into the Pathway library
  (\<open>pw.Table.empty\<close>) is outside the repository: \<open>pathway\<close> is \<open>None\<close> when the call
  returns and \<open>Some e\<close> when it raises \<open>e\<close>. Nothing else in the block can raise on a
  string.
\<close>

definition preprocess_try :: "error option \<Rightarrow> string \<Rightarrow> string \<Rightarrow> error + processed_claim" where
  "preprocess_try pathway now claim =
     (case pathway of
        Some e \<Rightarrow> Inl e
      | None \<Rightarrow>
          Inr \<lparr>pc_original_claim = strip claim,
               pc_normalized_claim = normalize_text claim,
               pc_entities = extract_entities claim,
               pc_claim_type = classify_claim_type claim,
               pc_key_terms = extract_key_terms claim,
               pc_structure = analyze_claim_structure claim,
               pc_search_queries = generate_search_queries claim,
               pc_timestamp = now,
               pc_preprocessing_method = None\<rparr>)"

text \<open>\<open>PathwayProcessor.preprocess_claim\<close>: any exception of the block is caught and
  answered with \<open>_basic_preprocessing\<close>.\<close>

definition preprocess_claim :: "error option \<Rightarrow> string \<Rightarrow> string \<Rightarrow> error + processed_claim" where
  "preprocess_claim pathway now claim =
     (case preprocess_try pathway now claim of
        Inr processed_data \<Rightarrow> Inr processed_data
      | Inl e \<Rightarrow> Inr (basic_preprocessing now claim))"

text \<open>\<open>PathwayProcessor.create_verification_context\<close> and its helpers.\<close>

definition determine_verification_strategy :: "processed_claim \<Rightarrow> string" where
  "determine_verification_strategy processed =
     (let strategies =
            [(''measurement'', ''Compare against authoritative measurement databases''),
             (''temporal'', ''Verify dates against historical records''),
             (''geographical'', ''Cross-reference with geographical databases''),
             (''biographical'', ''Verify against biographical sources''),
             (''definitional'', ''Check against authoritative definitions''),
             (''comparative'', ''Gather data for both subjects and compare''),
             (''general'', ''Multi-source verification with credible sources'')]
      in case map_of strategies (pc_claim_type processed) of
           Some s \<Rightarrow> s
         | None \<Rightarrow> ''Multi-source verification with credible sources'')"

definition identify_confidence_factors :: "processed_claim \<Rightarrow> string list" where
  "identify_confidence_factors processed =
     (let st = pc_structure processed; ents = pc_entities processed in
        (if has_quantifier st then [''Contains specific numbers - verifiable''] else []) @
        (if is_comparative st then [''Comparative claim - requires multiple data points''] else []) @
        (if complexity_score st > 3 then [''High complexity - may be difficult to verify''] else []) @
        (if entity_list ents ''places'' \<noteq> [] then [''Contains geographical references - verifiable'']
         else []) @
        (if entity_list ents ''dates'' \<noteq> [] then [''Contains dates - historically verifiable'']
         else []))"

definition identify_potential_issues :: "processed_claim \<Rightarrow> string list" where
  "identify_potential_issues processed =
     (let st = pc_structure processed in
        (if is_question st then [''Claim is phrased as a question''] else []) @
        (if has_negation st then [''Contains negation - verify the positive statement''] else []) @
        (if length (pc_key_terms processed) < 2 then [''Very few key terms - may be too vague'']
         else []) @
        (if complexity_score st > 4 then [''High complexity - break down into sub-claims'']
         else []))"

record verification_context =
  vc_claim_analysis :: processed_claim
  vc_verification_strategy :: string
  vc_external_evidence :: "string list"
  vc_confidence_factors :: "string list"
  vc_potential_issues :: "string list"

definition create_verification_context ::
  "processed_claim \<Rightarrow> string list option \<Rightarrow> verification_context" where
  "create_verification_context processed external_data =
     \<lparr>vc_claim_analysis = processed,
      vc_verification_strategy = determine_verification_strategy processed,
      vc_external_evidence = (case external_data of None \<Rightarrow> [] | Some d \<Rightarrow> d),
      vc_confidence_factors = identify_confidence_factors processed,
      vc_potential_issues = identify_potential_issues processed\<rparr>"

text \<open>
  The classification rule as the specification words it: fixed keyword sets tested in the
  priority order measurement, temporal, geographical, biographical, definitional,
  comparative; the first category one of whose keywords occurs in the lowercased claim
  wins, and \<open>general\<close> is the answer when none does.
\<close>

definition priority_rules :: "(string \<times> string list) list" where
  "priority_rules =
     [(''measurement'', [''taller'', ''shorter'', ''bigger'', ''smaller'', ''meters'', ''feet'', ''height'']),
      (''temporal'', [''when'', ''year'', ''date'', ''happened'', ''occurred'']),
      (''geographical'', [''where'', ''located'', ''city'', ''country'', ''place'']),
      (''biographical'', [''who'', ''person'', ''people'', ''president'', ''ceo'']),
      (''definitional'', [''what'', ''is'', ''definition'', ''means'']),
      (''comparative'', [''more'', ''less'', ''than'', ''compared'', ''versus''])]"

definition classify_by_priority :: "string \<Rightarrow> string" where
  "classify_by_priority claim =
     (case List.find (\<lambda>(category, keywords). \<exists>w \<in> set keywords. str_in w (lower claim))
             priority_rules of
        Some (category, keywords) \<Rightarrow> category
      | None \<Rightarrow> ''general'')"

section \<open>The response normalizer (services/llama_service.py)\<close>

text \<open>
  The values a decoded JSON document or a response dictionary can hold. \<open>int\<close> and
  \<open>float\<close> are both \<open>PNum\<close>. A dictionary is an association list in insertion order.
\<close>

datatype pyval =
    PNone
  | PBool bool
  | PNum real
  | PStr string
  | PList "pyval list"
  | PDict "(string \<times> pyval) list"

type_synonym pydict = "(string \<times> pyval) list"

text \<open>\<open>d[key] = value\<close>: an existing key keeps its place, a new key goes last.\<close>

fun dict_set :: "pydict \<Rightarrow> string \<Rightarrow> pyval \<Rightarrow> pydict" where
  "dict_set [] key v = [(key, v)]"
| "dict_set ((k, w) # d) key v = (if k = key then (k, v) # d else (k, w) # dict_set d key v)"

text \<open>\<open>d.get(key, default)\<close> and \<open>key in d\<close>\<close>

definition dict_get :: "pydict \<Rightarrow> string \<Rightarrow> pyval \<Rightarrow> pyval" where
  "dict_get d key dflt = (case map_of d key of None \<Rightarrow> dflt | Some v \<Rightarrow> v)"

definition dict_has :: "pydict \<Rightarrow> string \<Rightarrow> bool" where
  "dict_has d key = (map_of d key \<noteq> None)"

text \<open>\<open>category.value\<close> for the members of \<open>ClaimCategory\<close>.\<close>

fun category_value :: "ClaimCategory \<Rightarrow> string" where
  "category_value SCIENTIFIC = ''scientific''"
| "category_value MATHEMATICAL = ''mathematical''"
| "category_value HISTORICAL = ''historical''"
| "category_value GEOGRAPHICAL = ''geographical''"
| "category_value BIOGRAPHICAL = ''biographical''"
| "category_value STATISTICAL = ''statistical''"
| "category_value TECHNOLOGICAL = ''technological''"
| "category_value MEDICAL = ''medical''"
| "category_value LEGAL = ''legal''"
| "category_value ECONOMIC = ''economic''"
| "category_value POLITICAL = ''political''"
| "category_value CULTURAL = ''cultural''"
| "category_value LINGUISTIC = ''linguistic''"
| "category_value DEFINITIONAL = ''definitional''"
| "category_value COMPARATIVE = ''comparative''"
| "category_value TEMPORAL = ''temporal''"
| "category_value CAUSAL = ''causal''"
| "category_value PREDICTIVE = ''predictive''"
| "category_value OPINION_BASED = ''opinion_based''"
| "category_value GENERAL = ''general''"

text \<open>
  The enumeration \<open>VerdictType\<close>, each member with its value. It has no member
  \<open>DISPUTED\<close>.
\<close>

datatype VerdictType =
    VT_TRUE | VT_FALSE | VT_PARTIALLY_TRUE | VT_MISLEADING | VT_UNVERIFIED
  | VT_REQUIRES_CONTEXT | VT_REQUIRES_INVESTIGATION | VT_OPINION_NOT_FACT | VT_OUTDATED
  | VT_COMPLEX

fun verdict_value :: "VerdictType \<Rightarrow> string" where
  "verdict_value VT_TRUE = ''TRUE''"
| "verdict_value VT_FALSE = ''FALSE''"
| "verdict_value VT_PARTIALLY_TRUE = ''PARTIALLY_TRUE''"
| "verdict_value VT_MISLEADING = ''MISLEADING''"
| "verdict_value VT_UNVERIFIED = ''UNVERIFIED''"
| "verdict_value VT_REQUIRES_CONTEXT = ''REQUIRES_CONTEXT''"
| "verdict_value VT_REQUIRES_INVESTIGATION = ''REQUIRES_INVESTIGATION''"
| "verdict_value VT_OPINION_NOT_FACT = ''OPINION_NOT_FACT''"
| "verdict_value VT_OUTDATED = ''OUTDATED''"
| "verdict_value VT_COMPLEX = ''COMPLEX''"

text \<open>
  The attribute lookup \<open>VerdictType.NAME\<close>: the member of that name, or an
  \<open>AttributeError\<close> when the enumeration has none.
\<close>

definition verdict_type_attr :: "string \<Rightarrow> error + VerdictType" where
  "verdict_type_attr name =
     (case map_of
        [(''TRUE'', VT_TRUE), (''FALSE'', VT_FALSE), (''PARTIALLY_TRUE'', VT_PARTIALLY_TRUE),
         (''MISLEADING'', VT_MISLEADING), (''UNVERIFIED'', VT_UNVERIFIED),
         (''REQUIRES_CONTEXT'', VT_REQUIRES_CONTEXT),
         (''REQUIRES_INVESTIGATION'', VT_REQUIRES_INVESTIGATION),
         (''OPINION_NOT_FACT'', VT_OPINION_NOT_FACT), (''OUTDATED'', VT_OUTDATED),
         (''COMPLEX'', VT_COMPLEX)] name of
        Some m \<Rightarrow> Inr m
      | None \<Rightarrow> Inl (AttributeError name))"

text \<open>\<open>UniversalLLaMAService._standardize_verdict\<close>\<close>

definition standardize_verdict :: "string \<Rightarrow> error + string" where
  "standardize_verdict verdict_text =
     (let verdict_lower = lower verdict_text in
        map_sum id verdict_value
          (if any_in [''true'', ''correct'', ''accurate'', ''valid''] verdict_lower
             then verdict_type_attr ''TRUE''
           else if any_in [''false'', ''incorrect'', ''wrong'', ''invalid''] verdict_lower
             then verdict_type_attr ''FALSE''
           else if any_in [''partial'', ''mostly'', ''somewhat''] verdict_lower
             then verdict_type_attr ''PARTIALLY_TRUE''
           else if any_in [''misleading'', ''deceptive''] verdict_lower
             then verdict_type_attr ''MISLEADING''
           else if any_in [''context'', ''depends'', ''conditional''] verdict_lower
             then verdict_type_attr ''REQUIRES_CONTEXT''
           else if any_in [''disputed'', ''controversial'', ''debated''] verdict_lower
             then verdict_type_attr ''DISPUTED''
           else verdict_type_attr ''UNVERIFIED''))"

text \<open>\<open>s.strip('"')\<close>\<close>

definition strip_quotes :: "string \<Rightarrow> string" where
  "strip_quotes s =
     rev (dropWhile (\<lambda>c. c = CHR 0x22) (rev (dropWhile (\<lambda>c. c = CHR 0x22) s)))"

text \<open>\<open>float(s)\<close> for a text matched by \<^verbatim>\<open>\d+(?:\.\d+)?\<close>.\<close>

definition nat_of_digits :: "string \<Rightarrow> nat" where
  "nat_of_digits s = foldl (\<lambda>n c. 10 * n + (of_char c - 48)) 0 s"

definition float_of_decimal :: "string \<Rightarrow> real" where
  "float_of_decimal s =
     (let ip = takeWhile (\<lambda>c. c \<noteq> CHR ''.'') s;
          fp = drop 1 (dropWhile (\<lambda>c. c \<noteq> CHR ''.'') s)
      in real (nat_of_digits ip) + real (nat_of_digits fp) / 10 ^ length fp)"

text \<open>
  The patterns of \<open>_extract_structured_info\<close>, compiled with \<open>re.IGNORECASE\<close>:
  \<^verbatim>\<open>verdict[:\s]+([^,\n]+)\<close> (and the same after \<open>conclusion\<close> and \<open>result\<close>),
  \<^verbatim>\<open>confidence[:\s]+(\d+(?:\.\d+)?)\<close>, \<^verbatim>\<open>explanation[:\s]+([^.]+\.)\<close>, and the
  sentence separator \<^verbatim>\<open>[.!?]+\<close>.
\<close>

definition rx_colon_space :: rx where
  "rx_colon_space = Chr (\<lambda>c. c = CHR '':'' \<or> py_isspace c)"

definition rx_verdict_after :: "string \<Rightarrow> nat \<Rightarrow> rx" where
  "rx_verdict_after keyword n =
     seqs [rx_lit_i keyword, rx_plus n rx_colon_space,
           Grp (rx_plus n (Chr (\<lambda>c. c \<noteq> CHR '','' \<and> c \<noteq> CHR 0x0A)))]"

definition rx_confidence :: "nat \<Rightarrow> rx" where
  "rx_confidence n = seqs [rx_lit_i ''confidence'', rx_plus n rx_colon_space, Grp (rx_decimal n)]"

definition rx_explanation :: "nat \<Rightarrow> rx" where
  "rx_explanation n =
     seqs [rx_lit_i ''explanation'', rx_plus n rx_colon_space,
           Grp (seqs [rx_plus n (Chr (\<lambda>c. c \<noteq> CHR ''.'')), rx_chr (CHR ''.'')])]"

definition rx_sentence_end :: "nat \<Rightarrow> rx" where
  "rx_sentence_end n = rx_plus n (Chr (\<lambda>c. c = CHR ''.'' \<or> c = CHR ''!'' \<or> c = CHR ''?''))"

text \<open>Group 1 of the leftmost match, if the pattern matches.\<close>

definition search_group :: "rx \<Rightarrow> string \<Rightarrow> string option" where
  "search_group r s = (case re_search r s of Some (m, Some g) \<Rightarrow> Some g | _ \<Rightarrow> None)"

text \<open>
  The loop over \<open>verdict_patterns\<close>: the first pattern that matches decides, and its
  verdict text goes through \<open>_standardize_verdict\<close>, whose exception is not caught here.
\<close>

fun extract_verdict :: "string list \<Rightarrow> string \<Rightarrow> pydict \<Rightarrow> error + pydict" where
  "extract_verdict [] response response_dict = Inr response_dict"
| "extract_verdict (keyword # keywords) response response_dict =
     (case search_group (rx_verdict_after keyword (length response)) response of
        None \<Rightarrow> extract_verdict keywords response response_dict
      | Some g \<Rightarrow>
          (case standardize_verdict (strip_quotes (strip g)) of
             Inl e \<Rightarrow> Inl e
           | Inr v \<Rightarrow> Inr (dict_set response_dict ''verdict'' (PStr v))))"

text \<open>\<open>UniversalLLaMAService._extract_structured_info\<close>\<close>

definition extract_structured_info :: "string \<Rightarrow> error + pydict" where
  "extract_structured_info response =
     (case extract_verdict [''verdict'', ''conclusion'', ''result''] response [] of
        Inl e \<Rightarrow> Inl e
      | Inr response_dict \<Rightarrow>
          (let response_dict =
                 (case search_group (rx_confidence (length response)) response of
                    None \<Rightarrow> response_dict
                  | Some g \<Rightarrow> dict_set response_dict ''confidence_score''
                                (PNum (float_of_decimal g)));
               response_dict =
                 (case search_group (rx_explanation (length response)) response of
                    Some g \<Rightarrow> dict_set response_dict ''explanation'' (PStr (strip g))
                  | None \<Rightarrow>
                      (case List.find (\<lambda>sentence. length (strip sentence) > 20)
                              (re_split (rx_sentence_end (length response)) response) of
                         Some sentence \<Rightarrow>
                           dict_set response_dict ''explanation'' (PStr (strip sentence))
                       | None \<Rightarrow> response_dict))
           in Inr response_dict))"

text \<open>
  \<open>_adjust_confidence_by_category\<close> as the parser calls it, on whatever value the
  response dictionary holds under \<open>confidence_score\<close>. The four adjusting branches compare
  or multiply the value and raise \<open>TypeError\<close> when it is not a number (\<open>True\<close> and
  \<open>False\<close> count as 1 and 0); the other categories return the value as it is.
\<close>

fun as_number :: "pyval \<Rightarrow> real option" where
  "as_number (PNum x) = Some x"
| "as_number (PBool b) = Some (if b then 1 else 0)"
| "as_number v = None"

definition adjust_confidence_value :: "pyval \<Rightarrow> ClaimCategory \<Rightarrow> pydict \<Rightarrow> error + pyval" where
  "adjust_confidence_value confidence category config =
     (if category \<in> {MATHEMATICAL, MEDICAL, OPINION_BASED, SCIENTIFIC} then
        (case as_number confidence of
           None \<Rightarrow> Inl (TypeError ''unsupported operand type'')
         | Some x \<Rightarrow> Inr (PNum (adjust_confidence_by_category x category config)))
      else Inr confidence)"

text \<open>\<open>UniversalLLaMAService._get_category_sources\<close>\<close>

definition get_category_sources :: "ClaimCategory \<Rightarrow> string list" where
  "get_category_sources category =
     (let source_map =
        [(SCIENTIFIC, [''Peer-reviewed journals'', ''Scientific databases'', ''Research institutions'']),
         (MATHEMATICAL, [''Mathematical proofs'', ''Computational verification'', ''Mathematical journals'']),
         (HISTORICAL, [''Primary historical sources'', ''Archaeological evidence'', ''Historical archives'']),
         (MEDICAL, [''Clinical studies'', ''Medical journals'', ''Health authorities'']),
         (STATISTICAL, [''Government statistics'', ''Survey data'', ''Statistical databases'']),
         (GEOGRAPHICAL, [''Geographic databases'', ''Mapping services'', ''Geographic surveys'']),
         (LEGAL, [''Legal databases'', ''Court records'', ''Legislative documents'']),
         (BIOGRAPHICAL, [''Official biographies'', ''Historical records'', ''Verified databases'']),
         (COMPARATIVE, [''Comparative studies'', ''Statistical analysis'', ''Research data'']),
         (GENERAL, [''Reliable news sources'', ''Fact-checking organizations'', ''Academic sources''])]
      in case map_of source_map category of
           Some s \<Rightarrow> s
         | None \<Rightarrow> [''Reliable news sources'', ''Fact-checking organizations'', ''Academic sources''])"

text \<open>\<open>UniversalLLaMAService._generate_intelligent_fallback_response\<close>\<close>

definition generate_intelligent_fallback_response ::
  "string \<Rightarrow> ClaimCategory \<Rightarrow> string \<Rightarrow> pydict" where
  "generate_intelligent_fallback_response claim category error_type =
     [(''verdict'', PStr (verdict_value VT_UNVERIFIED)),
      (''confidence_score'', PNum 30.0),
      (''explanation'',
         PStr (''Unable to complete '' @ category_value category @ '' analysis for '' @ [CHR 0x27]
               @ claim @ [CHR 0x27] @ '' due to '' @ error_type
               @ ''. Requires manual verification.'')),
      (''claim_category'', PStr (category_value category)),
      (''error_type'', PStr error_type),
      (''key_evidence'',
         PList [PStr (''Claim categorized as '' @ category_value category),
                PStr (''Analysis interrupted by '' @ error_type),
                PStr ''Fallback response generated'',
                PStr ''Manual verification recommended'']),
      (''sources_needed'', PList (map PStr (get_category_sources category))),
      (''reasoning_steps'',
         PList [PStr (''Categorized as '' @ category_value category),
                PStr (''Attempted analysis but encountered '' @ error_type),
                PStr ''Generated fallback response'',
                PStr ''Recommended manual verification'']),
      (''caveats'',
         PList [PStr (''Analysis incomplete due to '' @ error_type),
                PStr ''Requires retry or manual verification''])]"

text \<open>
  The body of the \<open>try\<close> block of \<open>_parse_universal_response\<close>. The pattern is
  \<^verbatim>\<open>\{.*\}\<close> under \<open>re.DOTALL\<close>. The decoder \<open>json.loads\<close> is outside the
  repository and is the parameter \<open>json_loads\<close>: it returns the decoded object or raises.
\<close>

definition rx_json_block :: "nat \<Rightarrow> rx" where
  "rx_json_block n = seqs [rx_chr (CHR ''{''), rx_star n rx_any, rx_chr (CHR ''}'')]"

definition parse_universal_try ::
  "(string \<Rightarrow> error + pydict) \<Rightarrow> string \<Rightarrow> string \<Rightarrow> ClaimCategory \<Rightarrow> pydict \<Rightarrow> error + pydict" where
  "parse_universal_try json_loads llama_response claim category config =
     (case (case re_search (rx_json_block (length llama_response)) llama_response of
              Some (json_match, g) \<Rightarrow> json_loads json_match
            | None \<Rightarrow> extract_structured_info llama_response) of
        Inl e \<Rightarrow> Inl e
      | Inr response_dict \<Rightarrow>
          (let response_dict = dict_set response_dict ''claim_category''
                                 (PStr (category_value category));
               response_dict = dict_set response_dict ''analysis_framework''
                                 (PStr (category_value category @ ''_analysis''));
               original_confidence = dict_get response_dict ''confidence_score'' (PNum 50.0)
           in case adjust_confidence_value original_confidence category config of
                Inl e \<Rightarrow> Inl e
              | Inr adjusted_confidence \<Rightarrow>
                  (let response_dict = dict_set response_dict ''confidence_score''
                                         adjusted_confidence;
                       response_dict =
                         (if \<not> dict_has response_dict ''verdict''
                          then dict_set response_dict ''verdict''
                                 (PStr (verdict_value VT_UNVERIFIED))
                          else response_dict);
                       response_dict =
                         (if \<not> dict_has response_dict ''explanation''
                          then dict_set response_dict ''explanation''
                                 (PStr (''Analysis completed for '' @ category_value category
                                        @ '' claim: '' @ claim))
                          else response_dict)
                   in Inr response_dict)))"

text \<open>
  \<open>UniversalLLaMAService._parse_universal_response\<close>: the handler catches
  \<open>json.JSONDecodeError\<close> and \<open>KeyError\<close> only; every other exception of the block
  reaches the caller.
\<close>

fun caught_by_parser :: "error \<Rightarrow> bool" where
  "caught_by_parser (JSONDecodeError m) = True"
| "caught_by_parser (KeyError m) = True"
| "caught_by_parser e = False"

definition parse_universal_response ::
  "(string \<Rightarrow> error + pydict) \<Rightarrow> string \<Rightarrow> string \<Rightarrow> ClaimCategory \<Rightarrow> pydict \<Rightarrow> error + pydict" where
  "parse_universal_response json_loads llama_response claim category config =
     (case parse_universal_try json_loads llama_response claim category config of
        Inr response_dict \<Rightarrow> Inr response_dict
      | Inl e \<Rightarrow>
          if caught_by_parser e
          then Inr (generate_intelligent_fallback_response claim category ''parsing_error'')
          else Inl e)"

section \<open>Categorization and the analysis entry points (services/llama_service.py)\<close>

text \<open>
  The value bound to the parameter \<open>claim\<close> of \<open>analyze_claim\<close> and
  \<open>analyze_claim_universal\<close>. The signature asks for a string; the orchestrator passes
  the verification context, a dictionary.
\<close>

datatype claim_arg = ClaimStr string | ClaimContext verification_context

text \<open>\<open>str(year)\<close> for a year of four digits.\<close>

definition str_of_year :: "nat \<Rightarrow> string" where
  "str_of_year y =
     map (\<lambda>d. char_of (48 + d)) [y div 1000 mod 10, y div 100 mod 10, y div 10 mod 10, y mod 10]"

text \<open>\<open>sum(1 for word in keywords if word in text) / len(keywords)\<close>\<close>

definition keyword_score :: "string list \<Rightarrow> string \<Rightarrow> real" where
  "keyword_score keywords text =
     real (length (filter (\<lambda>word. str_in word text) keywords)) / real (length keywords)"

text \<open>\<open>max(items, key=lambda x: x[1])\<close>: the first item of maximal score.\<close>

fun max_item :: "('a \<times> real) \<Rightarrow> ('a \<times> real) list \<Rightarrow> ('a \<times> real)" where
  "max_item best [] = best"
| "max_item best (x # xs) = max_item (if snd x > snd best then x else best) xs"

text \<open>
  \<open>UniversalLLaMAService._categorize_claim_advanced\<close>. Its first statement is
  \<open>claim.lower()\<close>, which a dictionary does not have. The arithmetic pattern is
  \<^verbatim>\<open>\d+\s*[+\-*/=]\s*\d+\<close>. The entities read from the context are never used.
\<close>

definition rx_arithmetic :: "nat \<Rightarrow> rx" where
  "rx_arithmetic n =
     seqs [rx_plus n rx_digit, rx_star n rx_space,
           Chr (\<lambda>c. c \<in> set ''+-*/=''), rx_star n rx_space, rx_plus n rx_digit]"

definition categorize_claim_advanced :: "claim_arg \<Rightarrow> error + (ClaimCategory \<times> real)" where
  "categorize_claim_advanced claim_value =
     (case claim_value of
        ClaimContext d \<Rightarrow>
          Inl (AttributeError ([CHR 0x27] @ ''dict'' @ [CHR 0x27] @ '' object has no attribute ''
                               @ [CHR 0x27] @ ''lower'' @ [CHR 0x27]))
      | ClaimStr claim \<Rightarrow>
          (let claim_lower = lower claim;
               scientific_score =
                 keyword_score [''theory'', ''experiment'', ''research'', ''study'', ''evidence'',
                   ''hypothesis'', ''molecule'', ''atom'', ''gene'', ''species'', ''evolution'',
                   ''gravity'', ''energy''] claim_lower;
               math_score =
                 keyword_score [''equals'', ''plus'', ''minus'', ''multiply'', ''divide'',
                   ''theorem'', ''proof'', ''formula''] claim_lower;
               math_score =
                 (if re_search (rx_arithmetic (length claim)) claim \<noteq> None
                  then math_score + 0.5 else math_score);
               historical_score =
                 keyword_score [''century'', ''year'', ''ago'', ''ancient'', ''medieval'', ''war'',
                   ''empire'', ''revolution''] claim_lower;
               historical_score =
                 (if list_ex (\<lambda>year. str_in (str_of_year year) claim) [1000..<2025]
                  then historical_score + 0.3 else historical_score);
               medical_score =
                 keyword_score [''disease'', ''treatment'', ''medicine'', ''doctor'', ''patient'',
                   ''symptoms'', ''diagnosis''] claim_lower;
               scores =
                 [(SCIENTIFIC, scientific_score),
                  (MATHEMATICAL, math_score),
                  (HISTORICAL, historical_score),
                  (MEDICAL, medical_score),
                  (STATISTICAL,
                     if any_in [''percent'', ''statistics'', ''data'', ''survey''] claim_lower
                     then 0.1 else 0),
                  (GEOGRAPHICAL,
                     if any_in [''country'', ''city'', ''mountain'', ''river'', ''continent'']
                          claim_lower
                     then 0.1 else 0),
                  (COMPARATIVE,
                     if any_in [''bigger'', ''smaller'', ''faster'', ''slower'', ''more'', ''less'']
                          claim_lower
                     then 0.2 else 0),
                  (GENERAL, 0.1)]
           in Inr (max_item (hd scores) (tl scores))))"

text \<open>
  \<open>self.category_configs\<close>, as \<open>_init_category_configs\<close> fills it: six categories, and
  no entry for \<open>ClaimCategory.GENERAL\<close>.
\<close>

definition category_configs :: "(ClaimCategory \<times> pydict) list" where
  "category_configs =
     [(SCIENTIFIC, [(''confidence_threshold'', PNum 0.8), (''evidence_weight'', PNum 0.9),
                    (''methodology_focus'', PBool True), (''peer_review_importance'', PBool True)]),
      (MATHEMATICAL, [(''confidence_threshold'', PNum 0.95), (''evidence_weight'', PNum 0.99),
                      (''logical_proof_required'', PBool True),
                      (''computational_verification'', PBool True)]),
      (HISTORICAL, [(''confidence_threshold'', PNum 0.7), (''evidence_weight'', PNum 0.8),
                    (''source_reliability'', PBool True), (''temporal_context'', PBool True)]),
      (MEDICAL, [(''confidence_threshold'', PNum 0.85), (''evidence_weight'', PNum 0.9),
                 (''clinical_evidence'', PBool True), (''safety_priority'', PBool True)]),
      (STATISTICAL, [(''confidence_threshold'', PNum 0.8), (''evidence_weight'', PNum 0.85),
                     (''data_quality'', PBool True), (''methodology_critical'', PBool True)]),
      (OPINION_BASED, [(''confidence_threshold'', PNum 0.3), (''evidence_weight'', PNum 0.4),
                       (''subjective_nature'', PBool True), (''context_dependent'', PBool True)])]"

text \<open>\<open>category.name\<close>, and \<open>repr(category)\<close>, which is what \<open>str\<close> of a \<open>KeyError\<close>
  on that key shows.\<close>

fun category_name :: "ClaimCategory \<Rightarrow> string" where
  "category_name SCIENTIFIC = ''SCIENTIFIC''"
| "category_name MATHEMATICAL = ''MATHEMATICAL''"
| "category_name HISTORICAL = ''HISTORICAL''"
| "category_name GEOGRAPHICAL = ''GEOGRAPHICAL''"
| "category_name BIOGRAPHICAL = ''BIOGRAPHICAL''"
| "category_name STATISTICAL = ''STATISTICAL''"
| "category_name TECHNOLOGICAL = ''TECHNOLOGICAL''"
| "category_name MEDICAL = ''MEDICAL''"
| "category_name LEGAL = ''LEGAL''"
| "category_name ECONOMIC = ''ECONOMIC''"
| "category_name POLITICAL = ''POLITICAL''"
| "category_name CULTURAL = ''CULTURAL''"
| "category_name LINGUISTIC = ''LINGUISTIC''"
| "category_name DEFINITIONAL = ''DEFINITIONAL''"
| "category_name COMPARATIVE = ''COMPARATIVE''"
| "category_name TEMPORAL = ''TEMPORAL''"
| "category_name CAUSAL = ''CAUSAL''"
| "category_name PREDICTIVE = ''PREDICTIVE''"
| "category_name OPINION_BASED = ''OPINION_BASED''"
| "category_name GENERAL = ''GENERAL''"

definition category_repr :: "ClaimCategory \<Rightarrow> string" where
  "category_repr category =
     ''<ClaimCategory.'' @ category_name category @ '': '' @ [CHR 0x27]
     @ category_value category @ [CHR 0x27] @ ''>''"

text \<open>\<open>self.category_configs[category]\<close>: a missing key raises \<open>KeyError\<close>.\<close>

definition category_config_item :: "ClaimCategory \<Rightarrow> error + pydict" where
  "category_config_item category =
     (case map_of category_configs category of
        Some config \<Rightarrow> Inr config
      | None \<Rightarrow> Inl (KeyError (category_repr category)))"

text \<open>
  The analysis dictionary the orchestrator reads, at the types the service documents for
  it; a field is \<open>None\<close> (or the empty list) when the key is absent.
\<close>

record analysis_result =
  ar_verdict :: "string option"
  ar_confidence_score :: "real option"
  ar_explanation :: "string option"
  ar_key_evidence :: "string list"
  ar_sources_needed :: "string list"
  ar_reasoning_steps :: "string list"
  ar_caveats :: "string list"
  ar_model_used :: "string option"

text \<open>
  \<open>UniversalLLaMAService.analyze_claim_universal\<close>. Step 1 categorizes the claim. Step 2
  evaluates \<open>self.category_configs.get(claim_category,
  self.category_configs[ClaimCategory.GENERAL])\<close>, whose second argument is looked up
  before \<open>get\<close> is called. The remaining steps (prompt, demo response or HTTP call,
  parsing) are the parameter \<open>steps\<close>, a function of the demo-mode flag, the claim, the
  category, its score and the configuration.
\<close>

definition analyze_claim_universal ::
  "(bool \<Rightarrow> claim_arg \<Rightarrow> ClaimCategory \<Rightarrow> real \<Rightarrow> pydict \<Rightarrow> error + analysis_result) \<Rightarrow>
   bool \<Rightarrow> claim_arg \<Rightarrow> pydict option \<Rightarrow> error + analysis_result" where
  "analyze_claim_universal steps demo_mode claim context =
     (case categorize_claim_advanced claim of
        Inl e \<Rightarrow> Inl e
      | Inr (claim_category, category_confidence) \<Rightarrow>
          (case category_config_item GENERAL of
             Inl e \<Rightarrow> Inl e
           | Inr default_config \<Rightarrow>
               (let category_config =
                      (case map_of category_configs claim_category of
                         Some config \<Rightarrow> config
                       | None \<Rightarrow> default_config)
                in steps demo_mode claim claim_category category_confidence category_config)))"

text \<open>
  \<open>UniversalLLaMAService.analyze_claim\<close>. The class body defines the method twice; the
  second definition (\<open>analyze_claim(self, claim, context=None)\<close>, which routes to the
  universal analysis) replaces the first, so this is the method every caller reaches.
\<close>

definition analyze_claim ::
  "(bool \<Rightarrow> claim_arg \<Rightarrow> ClaimCategory \<Rightarrow> real \<Rightarrow> pydict \<Rightarrow> error + analysis_result) \<Rightarrow>
   bool \<Rightarrow> claim_arg \<Rightarrow> pydict option \<Rightarrow> error + analysis_result" where
  "analyze_claim steps demo_mode claim context =
     analyze_claim_universal steps demo_mode claim context"

section \<open>The orchestrator (services/fact_checker.py)\<close>

text \<open>\<open>str(i)\<close> for the positions 1, 2, 3 of an enumeration.\<close>

definition str_of_index :: "nat \<Rightarrow> string" where
  "str_of_index i = [char_of (48 + i)]"

text \<open>\<open>f"{i}. {item}\n"\<close> for the items of \<open>enumerate(xs[:3], 1)\<close>.\<close>

definition numbered_lines :: "string list \<Rightarrow> string" where
  "numbered_lines xs =
     concat (map (\<lambda>(i, item). str_of_index i @ ''. '' @ item @ [CHR 0x0A])
                 (zip [1..<4] (take 3 xs)))"

text \<open>
  The bullet of the caveat lines is the code point U+2022, which lies outside the
  characters of this model; it is written as its three UTF-8 bytes.
\<close>

definition bullet :: string where
  "bullet = [CHR 0xE2, CHR 0x80, CHR 0xA2]"

text \<open>\<open>FactCheckerService._format_explanation\<close>\<close>

definition format_explanation :: "analysis_result \<Rightarrow> string" where
  "format_explanation analysis =
     (let explanation = (case ar_explanation analysis of
                           Some e \<Rightarrow> e | None \<Rightarrow> ''No explanation provided.'');
          explanation =
            (if ar_key_evidence analysis \<noteq> []
             then explanation @ [CHR 0x0A, CHR 0x0A] @ ''Key Evidence:'' @ [CHR 0x0A]
                  @ numbered_lines (ar_key_evidence analysis)
             else explanation);
          explanation =
            (if ar_reasoning_steps analysis \<noteq> []
             then explanation @ [CHR 0x0A] @ ''Reasoning Process:'' @ [CHR 0x0A]
                  @ numbered_lines (ar_reasoning_steps analysis)
             else explanation);
          explanation =
            (if ar_caveats analysis \<noteq> []
             then explanation @ [CHR 0x0A] @ ''Important Notes:'' @ [CHR 0x0A]
                  @ concat (map (\<lambda>caveat. bullet @ '' '' @ caveat @ [CHR 0x0A])
                                (take 2 (ar_caveats analysis)))
             else explanation)
      in strip explanation)"

text \<open>
  \<open>FactCheckerService._format_sources\<close>. The serializer \<open>json.dumps\<close> is outside the
  repository; \<open>json_dumps\<close> stands for its result on the two-entry dictionary.
\<close>

definition format_sources ::
  "(string list \<Rightarrow> string \<Rightarrow> string) \<Rightarrow> analysis_result \<Rightarrow> string option" where
  "format_sources json_dumps analysis =
     (if ar_sources_needed analysis \<noteq> []
      then Some (json_dumps (ar_sources_needed analysis)
                   (case ar_model_used analysis of Some m \<Rightarrow> m | None \<Rightarrow> ''unknown''))
      else None)"

text \<open>
  What lies outside the repository for one call of \<open>check_fact\<close>: the outcome of the
  Pathway call, the clock reading used as time stamp, the elapsed milliseconds the
  handler measures, the demo-mode flag of the configuration, the remaining steps of the
  universal analysis, and the JSON serializer.
\<close>

record environment =
  env_pathway :: "error option"
  env_now :: string
  env_elapsed_ms :: int
  env_demo_mode :: bool
  env_steps :: "bool \<Rightarrow> claim_arg \<Rightarrow> ClaimCategory \<Rightarrow> real \<Rightarrow> pydict \<Rightarrow> error + analysis_result"
  env_json_dumps :: "string list \<Rightarrow> string \<Rightarrow> string"

text \<open>The \<open>try\<close> block of \<open>check_fact\<close>, up to the analysis (steps 1 to 3).\<close>

definition check_fact_analysis :: "environment \<Rightarrow> string \<Rightarrow> error + analysis_result" where
  "check_fact_analysis env claim =
     (case preprocess_claim (env_pathway env) (env_now env) claim of
        Inl e \<Rightarrow> Inl e
      | Inr processed_claim \<Rightarrow>
          (let verification_context = create_verification_context processed_claim None
           in analyze_claim (env_steps env) (env_demo_mode env)
                (ClaimContext verification_context) None))"

text \<open>
  \<open>FactCheckerService.check_fact\<close>: the result is stored in either case; an exception
  anywhere in the block stores the error record.
\<close>

definition check_fact ::
  "environment \<Rightarrow> memory_store \<Rightarrow> string \<Rightarrow> string option \<Rightarrow> memory_store \<times> result" where
  "check_fact env ms claim session_id =
     (case check_fact_analysis env claim of
        Inr analysis_result \<Rightarrow>
          add_result ms (env_now env) (strip claim)
            (case ar_verdict analysis_result of Some v \<Rightarrow> v | None \<Rightarrow> ''Unverified'')
            (case ar_confidence_score analysis_result of Some c \<Rightarrow> c | None \<Rightarrow> 0.0)
            (format_explanation analysis_result)
            (Some (env_elapsed_ms env))
            (format_sources (env_json_dumps env) analysis_result)
            session_id
      | Inl e \<Rightarrow>
          add_result ms (env_now env) (strip claim)
            ''Unverified''
            0.0
            (''Fact-checking failed due to technical error: '' @ error_message e
             @ ''. Please try again later.'')
            (Some (env_elapsed_ms env))
            None
            session_id)"

section \<open>The response generator (services/llama_service.py)\<close>

text \<open>
  \<open>UniversalLLaMAService._get_mock_response\<close>. The claim is cut out of the prompt between
  the marker and the next double quote and pasted, as it is, into the text of the
  \<open>explanation\<close> string of the template.
\<close>

definition mock_template :: "string \<Rightarrow> string" where
  \<open>mock_template claim =
     ''{'' @ [CHR 0x0A] @
     ''    "verdict": "Unverified",'' @ [CHR 0x0A] @
     ''    "confidence_score": 30,'' @ [CHR 0x0A] @
     ''    "explanation": "I apologize, but I cannot verify '' @ [CHR 0x27] @ claim @ [CHR 0x27] @
     '' at this time due to service unavailability. To properly fact-check this claim, I would need access to current databases and reliable sources. Please try again later or consult authoritative sources manually.",''
     @ [CHR 0x0A] @
     ''    "key_evidence": [],'' @ [CHR 0x0A] @
     ''    "sources_needed": ["authoritative databases", "reliable news sources", "academic sources"],''
     @ [CHR 0x0A] @
     ''    "reasoning_steps": ["Service unavailable", "Unable to access verification resources"],''
     @ [CHR 0x0A] @
     ''    "caveats": ["LLaMA service temporarily unavailable", "Manual verification recommended"]''
     @ [CHR 0x0A] @
     ''}''\<close>

definition get_mock_response :: "string \<Rightarrow> string" where
  \<open>get_mock_response prompt =
     (let claim_start = str_find prompt ''CLAIM TO ANALYZE: "'' + int (length ''CLAIM TO ANALYZE: "'');
          claim_end = str_find_from prompt ''"'' claim_start;
          claim = (if claim_start < claim_end
                   then take (nat (claim_end - claim_start)) (drop (nat claim_start) prompt)
                   else ''the claim'')
      in mock_template claim)\<close>

text \<open>
  The two collaborators of \<open>_call_llama_api\<close>: the optional \<open>ollama\<close> client (absent,
  raising, or returning a response dictionary, of which only the key \<open>response\<close> is
  read), and the HTTP call (a timeout, another exception, or a status code with the body
  as \<open>response.json()\<close> decodes it: an exception, or the value under \<open>response\<close> if any).
\<close>

datatype ollama_outcome =
    OllamaAbsent
  | OllamaRaises error
  | OllamaReturns "string option"

datatype http_outcome =
    HttpTimeout
  | HttpRaises error
  | HttpStatus int "error + string option"

text \<open>\<open>result.get("response", "")\<close>\<close>

definition response_text :: "string option \<Rightarrow> string" where
  "response_text r = (case r of Some t \<Rightarrow> t | None \<Rightarrow> [])"

text \<open>\<open>UniversalLLaMAService._call_llama_api\<close>\<close>

definition call_llama_api :: "ollama_outcome \<Rightarrow> http_outcome \<Rightarrow> string \<Rightarrow> string" where
  "call_llama_api ollama http prompt =
     (case ollama of
        OllamaReturns r \<Rightarrow> response_text r
      | _ \<Rightarrow>
          (case http of
             HttpTimeout \<Rightarrow> get_mock_response prompt
           | HttpRaises e \<Rightarrow> get_mock_response prompt
           | HttpStatus status_code body \<Rightarrow>
               if status_code = 200
               then (case body of
                       Inr r \<Rightarrow> response_text r
                     | Inl e \<Rightarrow> get_mock_response prompt)
               else get_mock_response prompt))"

text \<open>The generation call ends in a failure: no text from the client, and the HTTP call
  times out, raises, or answers with a status other than 200.\<close>

fun generation_failed :: "ollama_outcome \<Rightarrow> http_outcome \<Rightarrow> bool" where
  "generation_failed (OllamaReturns r) http = False"
| "generation_failed ollama HttpTimeout = True"
| "generation_failed ollama (HttpRaises e) = True"
| "generation_failed ollama (HttpStatus status_code body) = (status_code \<noteq> 200 \<or> isl body)"

section \<open>JSON syntax\<close>

text \<open>
  The syntax of a JSON text as \<open>json.loads\<close> accepts it, to say what a syntactically
  valid instance of the fixed result shape is. A string token keeps the text between its
  quotes as written (escapes are checked, not decoded); a number keeps its lexeme.
\<close>

datatype json =
    JNull
  | JBool bool
  | JNumber string
  | JString string
  | JArray "json list"
  | JObject "(string \<times> json) list"

datatype jtoken =
    TLBrace | TRBrace | TLBrack | TRBrack | TColon | TComma
  | TString string | TNumber string | TTrue | TFalse | TNull

definition is_hex :: "char \<Rightarrow> bool" where
  "is_hex c = (py_isdigit c \<or> c \<in> set ''abcdefABCDEF'')"

text \<open>
  The text of a string after its opening quote: up to the closing quote, with no raw
  control character and only the escapes of the JSON grammar. The result is the text
  and what follows the closing quote.
\<close>

fun lex_string :: "string \<Rightarrow> string \<Rightarrow> (string \<times> string) option" where
  "lex_string acc [] = None"
| "lex_string acc [c] = (if c = CHR 0x22 then Some (rev acc, []) else None)"
| "lex_string acc (c # e # cs) =
     (if c = CHR 0x22 then Some (rev acc, e # cs)
      else if c = CHR 0x5C then
        (if e \<in> set [CHR 0x22, CHR 0x5C, CHR ''/'', CHR ''b'', CHR ''f'', CHR ''n'', CHR ''r'', CHR ''t'']
         then lex_string (e # c # acc) cs
         else if e = CHR ''u'' \<and> length cs \<ge> 4 \<and> list_all is_hex (take 4 cs)
         then lex_string (rev (take 4 cs) @ e # c # acc) (drop 4 cs)
         else None)
      else if (of_char c :: nat) < 32 then None
      else lex_string (c # acc) (e # cs))"

text \<open>The number pattern of the decoder:
  \<^verbatim>\<open>(-?(?:0|[1-9]\d*))(\.\d+)?([eE][-+]?\d+)?\<close>.\<close>

definition rx_json_number :: "nat \<Rightarrow> rx" where
  "rx_json_number n =
     seqs [rx_opt (rx_chr (CHR ''-'')),
           Alt (rx_chr (CHR ''0''))
               (seqs [Chr (\<lambda>c. py_isdigit c \<and> c \<noteq> CHR ''0''), rx_star n rx_digit]),
           rx_opt (seqs [rx_chr (CHR ''.''), rx_plus n rx_digit]),
           rx_opt (seqs [Chr (\<lambda>c. c = CHR ''e'' \<or> c = CHR ''E''),
                         rx_opt (Chr (\<lambda>c. c = CHR ''-'' \<or> c = CHR ''+'')),
                         rx_plus n rx_digit])]"

definition json_space :: "char \<Rightarrow> bool" where
  "json_space c = (c \<in> set [CHR '' '', CHR 0x09, CHR 0x0A, CHR 0x0D])"

text \<open>
  The tokens of a text, or \<open>None\<close> when some part of it is no token. \<open>skip\<close> counts the
  characters that belong to the token just read.
\<close>

fun json_lex :: "nat \<Rightarrow> nat \<Rightarrow> string \<Rightarrow> jtoken list option" where
  "json_lex n skip [] = Some []"
| "json_lex n skip (c # cs) =
     (if skip > 0 then json_lex n (skip - 1) cs
      else if json_space c then json_lex n 0 cs
      else if c = CHR ''{'' then map_option ((#) TLBrace) (json_lex n 0 cs)
      else if c = CHR ''}'' then map_option ((#) TRBrace) (json_lex n 0 cs)
      else if c = CHR ''['' then map_option ((#) TLBrack) (json_lex n 0 cs)
      else if c = CHR '']'' then map_option ((#) TRBrack) (json_lex n 0 cs)
      else if c = CHR '':'' then map_option ((#) TColon) (json_lex n 0 cs)
      else if c = CHR '','' then map_option ((#) TComma) (json_lex n 0 cs)
      else if c = CHR 0x22 then
        (case lex_string [] cs of
           None \<Rightarrow> None
         | Some (body, rest) \<Rightarrow>
             map_option ((#) (TString body)) (json_lex n (length cs - length rest) cs))
      else if prefix ''true'' (c # cs) then map_option ((#) TTrue) (json_lex n 3 cs)
      else if prefix ''false'' (c # cs) then map_option ((#) TFalse) (json_lex n 4 cs)
      else if prefix ''null'' (c # cs) then map_option ((#) TNull) (json_lex n 3 cs)
      else if prefix ''NaN'' (c # cs) then map_option ((#) (TNumber ''NaN'')) (json_lex n 2 cs)
      else if prefix ''Infinity'' (c # cs)
        then map_option ((#) (TNumber ''Infinity'')) (json_lex n 7 cs)
      else if prefix ''-Infinity'' (c # cs)
        then map_option ((#) (TNumber ''-Infinity'')) (json_lex n 8 cs)
      else (case match_here (rx_json_number n) None (c # cs) of
              None \<Rightarrow> None
            | Some (m, g) \<Rightarrow>
                if m = [] then None
                else map_option ((#) (TNumber m)) (json_lex n (length m - 1) cs)))"

text \<open>
  The value at the head of a token list, and the tokens after it. The first argument
  bounds the number of nested calls; one more than the number of tokens is enough, since
  every call reads a token.
\<close>

fun parse_value :: "nat \<Rightarrow> jtoken list \<Rightarrow> (json \<times> jtoken list) option"
  and parse_array :: "nat \<Rightarrow> json list \<Rightarrow> jtoken list \<Rightarrow> (json \<times> jtoken list) option"
  and parse_object :: "nat \<Rightarrow> (string \<times> json) list \<Rightarrow> jtoken list \<Rightarrow> (json \<times> jtoken list) option"
where
  "parse_value 0 ts = None"
| "parse_value (Suc n) [] = None"
| "parse_value (Suc n) (TNull # ts) = Some (JNull, ts)"
| "parse_value (Suc n) (TTrue # ts) = Some (JBool True, ts)"
| "parse_value (Suc n) (TFalse # ts) = Some (JBool False, ts)"
| "parse_value (Suc n) (TString s # ts) = Some (JString s, ts)"
| "parse_value (Suc n) (TNumber s # ts) = Some (JNumber s, ts)"
| "parse_value (Suc n) (TLBrack # ts) =
     (case ts of TRBrack # r \<Rightarrow> Some (JArray [], r) | _ \<Rightarrow> parse_array n [] ts)"
| "parse_value (Suc n) (TLBrace # ts) =
     (case ts of TRBrace # r \<Rightarrow> Some (JObject [], r) | _ \<Rightarrow> parse_object n [] ts)"
| "parse_value (Suc n) (TRBrace # ts) = None"
| "parse_value (Suc n) (TRBrack # ts) = None"
| "parse_value (Suc n) (TColon # ts) = None"
| "parse_value (Suc n) (TComma # ts) = None"
| "parse_array 0 acc ts = None"
| "parse_array (Suc n) acc ts =
     (case parse_value n ts of
        None \<Rightarrow> None
      | Some (v, r) \<Rightarrow>
          (case r of
             TComma # r' \<Rightarrow> parse_array n (v # acc) r'
           | TRBrack # r' \<Rightarrow> Some (JArray (rev (v # acc)), r')
           | _ \<Rightarrow> None))"
| "parse_object 0 acc ts = None"
| "parse_object (Suc n) acc ts =
     (case ts of
        TString k # TColon # r \<Rightarrow>
          (case parse_value n r of
             None \<Rightarrow> None
           | Some (v, r') \<Rightarrow>
               (case r' of
                  TComma # r'' \<Rightarrow> parse_object n ((k, v) # acc) r''
                | TRBrace # r'' \<Rightarrow> Some (JObject (rev ((k, v) # acc)), r'')
                | _ \<Rightarrow> None))
      | _ \<Rightarrow> None)"

text \<open>The JSON value a text denotes, if it is a JSON text.\<close>

definition json_parse :: "string \<Rightarrow> json option" where
  "json_parse s =
     (case json_lex (length s) 0 s of
        None \<Rightarrow> None
      | Some ts \<Rightarrow>
          (case parse_value (Suc (length ts)) ts of
             Some (v, []) \<Rightarrow> Some v
           | _ \<Rightarrow> None))"

text \<open>
  The fixed result shape: an object with a string \<open>verdict\<close>, a number
  \<open>confidence_score\<close>, a string \<open>explanation\<close> and the four lists of strings.
\<close>

fun is_jstring :: "json \<Rightarrow> bool" where
  "is_jstring (JString s) = True"
| "is_jstring v = False"

fun is_jstring_list :: "json \<Rightarrow> bool" where
  "is_jstring_list (JArray vs) = list_all is_jstring vs"
| "is_jstring_list v = False"

fun is_jnumber :: "json \<Rightarrow> bool" where
  "is_jnumber (JNumber s) = True"
| "is_jnumber v = False"

definition has_field :: "(string \<times> json) list \<Rightarrow> string \<Rightarrow> (json \<Rightarrow> bool) \<Rightarrow> bool" where
  "has_field members key ok = (case map_of members key of Some v \<Rightarrow> ok v | None \<Rightarrow> False)"

fun result_shape :: "json \<Rightarrow> bool" where
  "result_shape (JObject members) =
     (has_field members ''verdict'' is_jstring \<and>
      has_field members ''confidence_score'' is_jnumber \<and>
      has_field members ''explanation'' is_jstring \<and>
      has_field members ''key_evidence'' is_jstring_list \<and>
      has_field members ''sources_needed'' is_jstring_list \<and>
      has_field members ''reasoning_steps'' is_jstring_list \<and>
      has_field members ''caveats'' is_jstring_list)"
| "result_shape v = False"

text \<open>
  A text is a valid fallback when it is a JSON text of the result shape with verdict
  \<open>Unverified\<close> and confidence score 30.
\<close>

definition valid_fallback :: "string \<Rightarrow> bool" where
  "valid_fallback text =
     (case json_parse text of
        Some (JObject members) \<Rightarrow>
          result_shape (JObject members) \<and>
          map_of members ''verdict'' = Some (JString ''Unverified'') \<and>
          map_of members ''confidence_score'' = Some (JNumber ''30'')
      | _ \<Rightarrow> False)"

section \<open>The pieces of the mock response\<close>

text \<open>
  A character that may stand as it is inside a JSON string: not the double quote, not
  the backslash, and no control character.
\<close>

definition json_safe :: "char \<Rightarrow> bool" where
  "json_safe c = (c \<noteq> CHR 0x22 \<and> c \<noteq> CHR 0x5C \<and> 32 \<le> (of_char c :: nat))"

text \<open>
  The mock template around the claim: the text before the \<open>explanation\<close> string, the
  two parts of that string around the claim, and the text after the string; then the
  tokens of the first and of the last piece.
\<close>

definition mock_head :: string where
  \<open>mock_head =
     ''{'' @ [CHR 0x0A] @
     ''    "verdict": "Unverified",'' @ [CHR 0x0A] @
     ''    "confidence_score": 30,'' @ [CHR 0x0A] @
     ''    "explanation": ''\<close>

definition mock_before :: string where
  "mock_before = ''I apologize, but I cannot verify '' @ [CHR 0x27]"

definition mock_after :: string where
  "mock_after = [CHR 0x27] @
     '' at this time due to service unavailability. To properly fact-check this claim, I would need access to current databases and reliable sources. Please try again later or consult authoritative sources manually.''"

definition mock_tail :: string where
  \<open>mock_tail =
     '','' @ [CHR 0x0A] @
     ''    "key_evidence": [],'' @ [CHR 0x0A] @
     ''    "sources_needed": ["authoritative databases", "reliable news sources", "academic sources"],''
     @ [CHR 0x0A] @
     ''    "reasoning_steps": ["Service unavailable", "Unable to access verification resources"],''
     @ [CHR 0x0A] @
     ''    "caveats": ["LLaMA service temporarily unavailable", "Manual verification recommended"]''
     @ [CHR 0x0A] @
     ''}''\<close>

definition mock_tail_tokens :: "jtoken list" where
  "mock_tail_tokens =
     [TComma, TString ''key_evidence'', TColon, TLBrack, TRBrack, TComma,
      TString ''sources_needed'', TColon, TLBrack, TString ''authoritative databases'', TComma,
      TString ''reliable news sources'', TComma, TString ''academic sources'', TRBrack, TComma,
      TString ''reasoning_steps'', TColon, TLBrack, TString ''Service unavailable'', TComma,
      TString ''Unable to access verification resources'', TRBrack, TComma,
      TString ''caveats'', TColon, TLBrack, TString ''LLaMA service temporarily unavailable'',
      TComma, TString ''Manual verification recommended'', TRBrack, TRBrace]"

definition mock_head_tokens :: "jtoken list" where
  "mock_head_tokens =
     [TLBrace, TString ''verdict'', TColon, TString ''Unverified'', TComma,
      TString ''confidence_score'', TColon, TNumber ''30'', TComma,
      TString ''explanation'', TColon]"

section \<open>Properties of the store\<close>

lemma add_results_counter:
  "counter (add_results self xs) = counter self + int (length xs)"
  by (induction self xs rule: add_results.induct) (simp_all add: add_result_def Let_def)

lemma add_results_ids:
  "map result_id (store (add_results self xs)) =
     map result_id (store self) @ map (\<lambda>i. counter self + int i) [0..<length xs]"
proof (induction self xs rule: add_results.induct)
  case (1 self)
  then show ?case by simp
next
  case (2 self now c v cs e p so se rest)
  have "map (\<lambda>i. counter self + int i) [0..<Suc (length rest)] =
        counter self # map (\<lambda>i. counter self + 1 + int i) [0..<length rest]"
    by (simp add: upt_conv_Cons map_Suc_upt [symmetric] del: upt_Suc)
  with 2 show ?case by (simp add: add_result_def Let_def)
qed

lemma filter_key_single:
  "distinct (map f xs) \<Longrightarrow> k \<in> set xs \<Longrightarrow> filter (\<lambda>x. f k = f x) xs = [k]"
proof (induction xs)
  case Nil
  then show ?case by simp
next
  case (Cons a xs)
  show ?case
  proof (cases "k = a")
    case True
    have "filter (\<lambda>x. f a = f x) xs = []"
      using Cons.prems(1) by (auto simp: filter_empty_conv)
    with True show ?thesis by simp
  next
    case False
    with Cons.prems have "k \<in> set xs" by simp
    moreover have "f a \<notin> f ` set xs" using Cons.prems(1) by simp
    then have "f k \<noteq> f a" using \<open>k \<in> set xs\<close> by (metis imageI)
    ultimately show ?thesis using Cons by simp
  qed
qed

lemma sorted_neg_rev:
  fixes f :: "'a \<Rightarrow> int"
  shows "sorted (map f xs) \<Longrightarrow> sorted (map (\<lambda>x. - f x) (rev xs))"
  by (induction xs) (auto simp: sorted_append)

lemma sort_key_desc_rev:
  fixes f :: "'a \<Rightarrow> int"
  assumes "sorted (map f xs)" and "distinct (map f xs)"
  shows "sort_key (\<lambda>x. - f x) xs = rev xs"
proof (rule properties_for_sort_key)
  show "mset (rev xs) = mset xs" by simp
next
  fix k assume "k \<in> set (rev xs)"
  then have k: "k \<in> set xs" by simp
  have "filter (\<lambda>x. f k = f x) xs = [k]"
    using assms(2) k by (rule filter_key_single)
  moreover have "filter (\<lambda>x. f k = f x) (rev xs) = rev (filter (\<lambda>x. f k = f x) xs)"
    by (simp add: rev_filter)
  ultimately show "filter (\<lambda>x. - f k = - f x) (rev xs) = filter (\<lambda>x. - f k = - f x) xs"
    by simp
next
  show "sorted (map (\<lambda>x. - f x) (rev xs))"
    using assms(1) by (rule sorted_neg_rev)
qed

lemma ids_sorted_distinct:
  "sorted (map (\<lambda>i. c + int i) [0..<n]) \<and> distinct (map (\<lambda>i. c + int i) [0..<n])"
  by (auto simp: sorted_map distinct_map inj_on_def intro!: sorted_wrt_mono_rel [of _ "(<)"])

lemma sorted_desc_add_results:
  "sorted_desc (store (add_results init_store xs)) = rev (store (add_results init_store xs))"
proof -
  have "map result_id (store (add_results init_store xs)) = map (\<lambda>i. 1 + int i) [0..<length xs]"
    using add_results_ids [of init_store xs] by (simp add: init_store_def)
  then show ?thesis
    unfolding sorted_desc_def
    using ids_sorted_distinct [of 1 "length xs"] by (intro sort_key_desc_rev) simp_all
qed

lemma add_results_length:
  "length (store (add_results self xs)) = length (store self) + length xs"
  by (induction self xs rule: add_results.induct) (simp_all add: add_result_def Let_def)

lemma ids_55_46: "rev (map (\<lambda>i. 1 + int i) [45..<55]) = [55, 54, 53, 52, 51, 50, 49, 48, 47, 46]"
  by (simp add: upt_rec_numeral)

lemma page_of_rev:
  assumes "length st = 60"
  shows "take 10 (drop 5 (rev st)) = rev (take 10 (drop 45 st))"
  using assms by (simp add: drop_rev take_rev drop_take)

text \<open>
  Claim C8. If the store holds exactly 60 records, inserted in order by \<open>add_result\<close>
  into a fresh store (so their ids are 1..60), then \<open>get_all\<close> with limit 10 and
  offset 5 returns exactly the records with ids 55 down to 46, in strictly descending id
  order: the records stored at positions 45..54, reversed. The history endpoint
  \<open>get_history\<close> returns these ten records (with the explanation shortened) whenever the
  stored records pass the validation of the \<open>HistoryResponse\<close> schema, as every
  verdict record of the data model does.
\<close>

theorem get_history_page:
  assumes "length xs = 60"
  shows "get_all (add_results init_store xs) (Some 10) (Some 5) =
           rev (take 10 (drop 45 (store (add_results init_store xs))))
       \<and> map result_id (get_all (add_results init_store xs) (Some 10) (Some 5)) =
           [55, 54, 53, 52, 51, 50, 49, 48, 47, 46]
       \<and> (list_all history_valid (store (add_results init_store xs)) \<longrightarrow>
            get_history (add_results init_store xs) (Some 10) (Some 5) =
              Inr (map history_item (rev (take 10 (drop 45 (store (add_results init_store xs))))))
          \<and> map_sum id (map hr_id) (get_history (add_results init_store xs) (Some 10) (Some 5)) =
              Inr [55, 54, 53, 52, 51, 50, 49, 48, 47, 46])"
proof -
  let ?s = "add_results init_store xs"
  have len: "length (store ?s) = 60"
    using assms by (simp add: add_results_length init_store_def)
  have ga: "get_all ?s (Some 10) (Some 5) = rev (take 10 (drop 45 (store ?s)))"
    using page_of_rev [OF len]
    by (simp add: get_all_def truthy_def slice_from_def slice_to_def sorted_desc_add_results)
  have m: "map result_id (store ?s) = map (\<lambda>i. 1 + int i) [0..<60]"
    using add_results_ids [of init_store xs] assms by (simp add: init_store_def)
  have "map result_id (rev (take 10 (drop 45 (store ?s)))) =
        rev (take 10 (drop 45 (map result_id (store ?s))))"
    by (simp only: rev_map take_map drop_map)
  also have "\<dots> = rev (take 10 (drop 45 (map (\<lambda>i. 1 + int i) [0..<60])))"
    by (simp only: m)
  also have "\<dots> = rev (map (\<lambda>i. 1 + int i) [45..<55])"
    by (simp add: take_map drop_map)
  also note ids_55_46
  finally have ids: "map result_id (get_all ?s (Some 10) (Some 5)) =
      [55, 54, 53, 52, 51, 50, 49, 48, 47, 46]"
    by (simp only: ga)
  have hist: "get_history ?s (Some 10) (Some 5) =
                Inr (map history_item (rev (take 10 (drop 45 (store ?s)))))
            \<and> map_sum id (map hr_id) (get_history ?s (Some 10) (Some 5)) =
                Inr [55, 54, 53, 52, 51, 50, 49, 48, 47, 46]"
    if v: "list_all history_valid (store ?s)"
  proof -
    have "list_all history_valid (get_all ?s (Some 10) (Some 5))"
      using v unfolding ga list_all_iff by (auto dest: in_set_takeD in_set_dropD)
    then have g: "get_history ?s (Some 10) (Some 5) = Inr (map history_item (get_all ?s (Some 10) (Some 5)))"
      by (simp add: get_history_def)
    have "map hr_id (map history_item (get_all ?s (Some 10) (Some 5))) =
          map result_id (get_all ?s (Some 10) (Some 5))"
      by (simp add: history_item_def)
    with g ids show ?thesis by (simp add: ga)
  qed
  from ga ids hist show ?thesis by blast
qed

lemma add_results_valid:
  "list_all history_valid (store self) \<Longrightarrow>
   list_all (\<lambda>(now, c, v, cs, e, p, so, se). v \<in> set VerdictEnum \<and> 0 \<le> cs \<and> cs \<le> 100) xs \<Longrightarrow>
   list_all history_valid (store (add_results self xs))"
  by (induction self xs rule: add_results.induct)
     (simp_all add: add_result_def Let_def history_valid_def)

theorem get_history_page_witness:
  "length (replicate 60 (''2024-01-15T10:30:00'', ''The Earth is flat'', ''False'', 99.9 :: real,
              ''Contradicts observation.'', Some (1500 :: int), None :: string option, None :: string option)) = 60
   \<and> map_sum id (map hr_id)
        (get_history (add_results init_store
           (replicate 60 (''2024-01-15T10:30:00'', ''The Earth is flat'', ''False'', 99.9,
              ''Contradicts observation.'', Some 1500, None, None))) (Some 10) (Some 5)) =
       Inr [55, 54, 53, 52, 51, 50, 49, 48, 47, 46]"
proof -
  let ?x = "(''2024-01-15T10:30:00'', ''The Earth is flat'', ''False'', 99.9 :: real,
              ''Contradicts observation.'', Some (1500 :: int), None :: string option, None :: string option)"
  have l: "length (replicate 60 ?x) = 60" by simp
  have v: "list_all history_valid (store (add_results init_store (replicate 60 ?x)))"
    by (rule add_results_valid)
       (simp_all add: init_store_def list_all_iff VerdictEnum_def)
  from get_history_page [OF l] v l show ?thesis by blast
qed

text \<open>
  Claim C10. \<open>get_all\<close> applies limit and offset only when they are truthy: limit 0
  behaves as no limit at all (every stored record is returned, not zero records), offset 0
  behaves as offset \<open>None\<close> (nothing is skipped), and with limit 0 or \<open>None\<close> and
  nothing skipped the result is the full log sorted by descending id, for any stored state.
\<close>

theorem get_all_falsy:
  "get_all self (Some 0) offset = get_all self None offset
   \<and> get_all self limit (Some 0) = get_all self limit None
   \<and> get_all self None None = sorted_desc (store self)
   \<and> get_all self (Some 0) None = sorted_desc (store self)
   \<and> get_all self None (Some 0) = sorted_desc (store self)
   \<and> get_all self (Some 0) (Some 0) = sorted_desc (store self)
   \<and> mset (sorted_desc (store self)) = mset (store self)
   \<and> length (get_all self (Some 0) (Some 0)) = length (store self)
   \<and> sorted_wrt (\<lambda>a b. result_id a \<ge> result_id b) (sorted_desc (store self))"
proof -
  have "sorted (map (\<lambda>r. - result_id r) (sorted_desc (store self)))"
    by (simp add: sorted_desc_def)
  then have "sorted_wrt (\<lambda>a b. result_id a \<ge> result_id b) (sorted_desc (store self))"
    by (simp add: sorted_map)
  then show ?thesis
    by (simp add: get_all_def truthy_def) (simp add: sorted_desc_def)
qed

section \<open>Properties of the confidence adjustment\<close>

text \<open>
  Claim C2. For every input confidence \<open>x\<close> (in particular every \<open>x\<close> in \<open>[0, 100]\<close>):
  Mathematical: if \<open>x > 90\<close> the result is \<open>min(x, 99.5)\<close>, otherwise \<open>x * 0.8\<close>;
  Medical: \<open>min(x * 0.9, 85.0)\<close>; Opinion-based: \<open>min(x, 60.0)\<close>; Scientific: if
  \<open>x < 70\<close> the result is \<open>x * 0.85\<close>, otherwise \<open>x\<close>; every other category returns
  \<open>x\<close> unchanged.
\<close>

theorem adjust_confidence_cases:
  "adjust_confidence_by_category x MATHEMATICAL cfg = (if x > 90 then min x 99.5 else x * 0.8)
   \<and> adjust_confidence_by_category x MEDICAL cfg = min (x * 0.9) 85.0
   \<and> adjust_confidence_by_category x OPINION_BASED cfg = min x 60.0
   \<and> adjust_confidence_by_category x SCIENTIFIC cfg = (if x < 70 then x * 0.85 else x)
   \<and> (c \<notin> {MATHEMATICAL, MEDICAL, OPINION_BASED, SCIENTIFIC} \<longrightarrow>
        adjust_confidence_by_category x c cfg = x)"
  by (simp add: adjust_confidence_by_category_def)

theorem adjust_confidence_cases_witness:
  "GENERAL \<notin> {MATHEMATICAL, MEDICAL, OPINION_BASED, SCIENTIFIC}
   \<and> adjust_confidence_by_category 50 GENERAL () = 50
   \<and> adjust_confidence_by_category 95 MATHEMATICAL () = 95
   \<and> adjust_confidence_by_category 50 MATHEMATICAL () = 40"
  using adjust_confidence_cases [of 50 "()" GENERAL] adjust_confidence_cases [of 95 "()" GENERAL]
  by simp

text \<open>
  Claim C3 as stated fails twice: the Medical rule is not idempotent (100 is sent to 85,
  and 85 to 76.5), and input 95 in the Mathematical category yields 95, not 99.5.
\<close>

theorem adjust_idempotence_counterexample:
  "adjust_confidence_by_category (adjust_confidence_by_category 100 MEDICAL ()) MEDICAL ()
     \<noteq> adjust_confidence_by_category 100 MEDICAL ()
   \<and> adjust_confidence_by_category 95 MATHEMATICAL () \<noteq> 99.5"
  by (simp add: adjust_confidence_by_category_def)

text \<open>
  Claim C3, amended. The adjustment is idempotent under re-application for the
  Opinion-based category (for every \<open>x\<close>), and not for the Medical (100, 85, 76.5),
  Mathematical (50, 40, 32) and Scientific (60, 51, 43.35) rules. On the representative
  inputs: 95 in the Mathematical category yields 95, 95 in the Opinion-based category
  yields 60, and 95 in the Scientific category yields 95 unchanged.
\<close>

theorem adjust_idempotence_amended:
  "adjust_confidence_by_category (adjust_confidence_by_category x OPINION_BASED cfg) OPINION_BASED cfg
     = adjust_confidence_by_category x OPINION_BASED cfg
   \<and> adjust_confidence_by_category 100 MEDICAL cfg = 85
   \<and> adjust_confidence_by_category (adjust_confidence_by_category 100 MEDICAL cfg) MEDICAL cfg = 76.5
   \<and> adjust_confidence_by_category 50 MATHEMATICAL cfg = 40
   \<and> adjust_confidence_by_category (adjust_confidence_by_category 50 MATHEMATICAL cfg) MATHEMATICAL cfg = 32
   \<and> adjust_confidence_by_category 60 SCIENTIFIC cfg = 51
   \<and> adjust_confidence_by_category (adjust_confidence_by_category 60 SCIENTIFIC cfg) SCIENTIFIC cfg = 43.35
   \<and> adjust_confidence_by_category 95 MATHEMATICAL cfg = 95
   \<and> adjust_confidence_by_category 95 OPINION_BASED cfg = 60
   \<and> adjust_confidence_by_category 95 SCIENTIFIC cfg = 95"
  by (simp add: adjust_confidence_by_category_def)

section \<open>Properties of the claim preprocessor\<close>

lemma str_in_lower:
  assumes "str_in w s" and "lower w = w"
  shows "str_in w (lower s)"
proof -
  from assms(1) obtain ps ss where "s = ps @ w @ ss"
    by (auto simp: str_in_def sublist_def)
  then have "lower s = lower ps @ lower w @ lower ss"
    by (simp add: lower_def)
  with assms(2) show ?thesis
    by (auto simp: str_in_def sublist_def)
qed

lemma lower_taller: "lower ''taller'' = ''taller''"
  by code_simp

text \<open>
  Claim C4. Claim-type classification tests the fixed keyword sets in the priority order
  measurement, temporal, geographical, biographical, definitional, comparative, and
  returns the first category one of whose keywords occurs in the lowercased claim text,
  \<open>general\<close> when none does: the source function agrees with the priority table
  \<open>classify_by_priority\<close> on every claim. In particular every claim containing both
  \<open>taller\<close> and \<open>where\<close> classifies as \<open>measurement\<close>. (A keyword set meets the
  claim when a keyword is a substring of the lowercased text, as Python's \<open>in\<close> tests.)
\<close>

theorem classify_priority_order:
  "classify_claim_type claim = classify_by_priority claim
   \<and> (str_in ''taller'' claim \<and> str_in ''where'' claim \<longrightarrow>
        classify_claim_type claim = ''measurement'')"
proof -
  have eq: "classify_claim_type claim = classify_by_priority claim"
    by (simp add: classify_claim_type_def classify_by_priority_def priority_rules_def
        any_in_def Let_def)
  have "classify_claim_type claim = ''measurement''" if "str_in ''taller'' claim"
  proof -
    have "str_in ''taller'' (lower claim)"
      using that lower_taller by (rule str_in_lower)
    then show ?thesis
      by (simp add: classify_claim_type_def any_in_def Let_def)
  qed
  with eq show ?thesis by blast
qed

theorem classify_priority_order_witness:
  "str_in ''taller'' ''I know where the taller tower is''
   \<and> str_in ''where'' ''I know where the taller tower is''
   \<and> classify_claim_type ''I know where the taller tower is'' = ''measurement''
   \<and> classify_by_priority ''I know where the taller tower is'' = ''measurement''"
proof -
  have a: "str_in ''taller'' ''I know where the taller tower is''" by code_simp
  have b: "str_in ''where'' ''I know where the taller tower is''" by code_simp
  from classify_priority_order [of "''I know where the taller tower is''"] a b
  show ?thesis by metis
qed

lemma calculate_complexity_formula:
  "calculate_complexity claim =
     min (min (real (length (split claim)) / 10) 1
          + 0.2 * real (length (filter (\<lambda>word. str_in word (lower claim)) subordinate_words))
          + 0.3 * real (length (re_findall (rx_digit_run (length claim)) claim))) 5"
  by (simp add: calculate_complexity_def Let_def sum_list_triv)

text \<open>
  Claim C9. The complexity score never exceeds 5, and it is monotonically non-decreasing
  in the word count and in the number of digit-run matches, all else (the subordinate
  conjunction hits) being equal: a claim with at least as many words and at least as many
  digit runs as another, and the same hits, scores at least as high.
\<close>

theorem complexity_monotone:
  "calculate_complexity c \<le> 5
   \<and> (length (split c1) \<le> length (split c2)
        \<and> filter (\<lambda>word. str_in word (lower c1)) subordinate_words
          = filter (\<lambda>word. str_in word (lower c2)) subordinate_words
        \<and> length (re_findall (rx_digit_run (length c1)) c1)
          \<le> length (re_findall (rx_digit_run (length c2)) c2)
      \<longrightarrow> calculate_complexity c1 \<le> calculate_complexity c2)"
proof -
  have cap: "calculate_complexity c \<le> 5"
    by (simp add: calculate_complexity_formula)
  have mono: "calculate_complexity c1 \<le> calculate_complexity c2"
    if w: "length (split c1) \<le> length (split c2)"
    and h: "filter (\<lambda>word. str_in word (lower c1)) subordinate_words
          = filter (\<lambda>word. str_in word (lower c2)) subordinate_words"
    and d: "length (re_findall (rx_digit_run (length c1)) c1)
          \<le> length (re_findall (rx_digit_run (length c2)) c2)"
  proof -
    have "real (length (split c1)) / 10 \<le> real (length (split c2)) / 10"
      using w by simp
    then have 1: "min (real (length (split c1)) / 10) 1 \<le> min (real (length (split c2)) / 10) 1"
      by (rule min.mono) simp
    have 2: "0.3 * real (length (re_findall (rx_digit_run (length c1)) c1))
           \<le> 0.3 * real (length (re_findall (rx_digit_run (length c2)) c2))"
      using d by simp
    show ?thesis
      unfolding calculate_complexity_formula h
      by (intro min.mono add_mono 1 2 order_refl)
  qed
  from cap mono show ?thesis by blast
qed

theorem complexity_monotone_witness:
  "length (split ''The tower is 300 meters'') \<le> length (split ''The tower is 300 meters and 20 wide'')
   \<and> filter (\<lambda>word. str_in word (lower ''The tower is 300 meters'')) subordinate_words
     = filter (\<lambda>word. str_in word (lower ''The tower is 300 meters and 20 wide'')) subordinate_words
   \<and> length (re_findall (rx_digit_run (length ''The tower is 300 meters'')) ''The tower is 300 meters'')
     \<le> length (re_findall (rx_digit_run (length ''The tower is 300 meters and 20 wide''))
                 ''The tower is 300 meters and 20 wide'')
   \<and> calculate_complexity ''The tower is 300 meters''
     \<le> calculate_complexity ''The tower is 300 meters and 20 wide''"
proof -
  let ?c1 = "''The tower is 300 meters''"
  let ?c2 = "''The tower is 300 meters and 20 wide''"
  have w: "length (split ?c1) \<le> length (split ?c2)" by code_simp
  have h: "filter (\<lambda>word. str_in word (lower ?c1)) subordinate_words
         = filter (\<lambda>word. str_in word (lower ?c2)) subordinate_words" by code_simp
  have d: "length (re_findall (rx_digit_run (length ?c1)) ?c1)
         \<le> length (re_findall (rx_digit_run (length ?c2)) ?c2)" by code_simp
  from complexity_monotone [of ?c1 ?c1 ?c2] w h d show ?thesis by blast
qed

text \<open>
  Claim C5 as stated fails: when the Pathway call raises, the descriptor returned for
  the claim \<open>The tower is 300 meters taller\<close> has claim type \<open>measurement\<close>, two key
  terms and non-empty entity lists.
\<close>

theorem preprocess_fallback_counterexample:
  "map_sum id pc_claim_type
     (preprocess_claim (Some (OtherException ''pathway failed'')) ''2024-01-15T10:30:00''
        ''The tower is 300 meters taller'') = Inr ''measurement''
   \<and> map_sum id pc_key_terms
     (preprocess_claim (Some (OtherException ''pathway failed'')) ''2024-01-15T10:30:00''
        ''The tower is 300 meters taller'') = Inr [''tower'', ''meters'']
   \<and> map_sum id pc_entities
     (preprocess_claim (Some (OtherException ''pathway failed'')) ''2024-01-15T10:30:00''
        ''The tower is 300 meters taller'') =
       Inr [(''numbers'', [''300'']), (''dates'', []),
            (''places'', [''The tower is'', ''meters taller'']),
            (''measurements'', [''300 meters''])]"
proof -
  let ?c = "''The tower is 300 meters taller''"
  have 1: "classify_claim_type ?c = ''measurement''" by code_simp
  have 2: "extract_key_terms ?c = [''tower'', ''meters'']" by code_simp
  have 3: "extract_entities ?c = [(''numbers'', [''300'']), (''dates'', []),
            (''places'', [''The tower is'', ''meters taller'']),
            (''measurements'', [''300 meters''])]" by code_simp
  show ?thesis
    by (simp add: preprocess_claim_def preprocess_try_def basic_preprocessing_def 1 2 3)
qed

text \<open>
  Claim C5, amended. \<open>preprocess_claim\<close> is total: it returns a descriptor for every
  string, whether the Pathway call raises or not. Whenever an error occurs in its
  \<open>try\<close> block it returns the descriptor of \<open>_basic_preprocessing\<close>, whose entities,
  key terms and claim type are computed from the claim exactly as on the normal path, and
  which carries the mark \<open>preprocessing_method = basic\<close>.
\<close>

theorem preprocess_claim_total:
  "(\<exists>d. preprocess_claim pathway now claim = Inr d)
   \<and> (pathway \<noteq> None \<longrightarrow>
        preprocess_claim pathway now claim = Inr (basic_preprocessing now claim))
   \<and> pc_entities (basic_preprocessing now claim) = extract_entities claim
   \<and> pc_key_terms (basic_preprocessing now claim) = extract_key_terms claim
   \<and> pc_claim_type (basic_preprocessing now claim) = classify_claim_type claim
   \<and> pc_preprocessing_method (basic_preprocessing now claim) = Some ''basic''
   \<and> (pathway = None \<longrightarrow>
        preprocess_claim pathway now claim =
          Inr ((basic_preprocessing now claim)\<lparr>pc_preprocessing_method := None\<rparr>))"
  by (cases pathway)
     (simp_all add: preprocess_claim_def preprocess_try_def basic_preprocessing_def)

theorem preprocess_claim_total_witness:
  "Some (OtherException ''pathway failed'') \<noteq> None
   \<and> preprocess_claim (Some (OtherException ''pathway failed'')) ''2024-01-15T10:30:00''
        ''The tower is 300 meters taller''
     = Inr (basic_preprocessing ''2024-01-15T10:30:00'' ''The tower is 300 meters taller'')
   \<and> (None :: error option) = None
   \<and> preprocess_claim None ''2024-01-15T10:30:00'' ''The tower is 300 meters taller''
     = Inr ((basic_preprocessing ''2024-01-15T10:30:00'' ''The tower is 300 meters taller'')
              \<lparr>pc_preprocessing_method := None\<rparr>)"
  using preprocess_claim_total [of "Some (OtherException ''pathway failed'')"
          "''2024-01-15T10:30:00''" "''The tower is 300 meters taller''"]
        preprocess_claim_total [of None
          "''2024-01-15T10:30:00''" "''The tower is 300 meters taller''"]
  by simp

section \<open>Properties of the analysis entry points and the orchestrator\<close>

lemma category_configs_no_general: "map_of category_configs GENERAL = None"
  by (simp add: category_configs_def)

lemma analyze_claim_universal_raises:
  "isl (analyze_claim_universal steps demo_mode claim context)"
  by (cases claim)
     (auto simp: analyze_claim_universal_def categorize_claim_advanced_def
        category_config_item_def category_configs_no_general Let_def
        split: sum.splits prod.splits)

lemma check_fact_analysis_raises:
  "check_fact_analysis env claim =
     Inl (AttributeError ([CHR 0x27] @ ''dict' object has no attribute 'lower'' @ [CHR 0x27]))"
  by (simp add: check_fact_analysis_def preprocess_claim_def preprocess_try_def
      analyze_claim_def analyze_claim_universal_def categorize_claim_advanced_def
      split: option.splits)

lemma check_fact_stores_error_record:
  "result_verdict (snd (check_fact env ms claim session_id)) = ''Unverified''
   \<and> result_confidence_score (snd (check_fact env ms claim session_id)) = 0
   \<and> store (fst (check_fact env ms claim session_id))
     = store ms @ [snd (check_fact env ms claim session_id)]"
  by (simp add: check_fact_def check_fact_analysis_raises add_result_def Let_def)

text \<open>
  Claim C1 (the code departs from it). In demo mode, \<open>check_fact\<close> applied to the claim
  \<open>The Earth is flat\<close> on a fresh store stores exactly one record, and that record has
  verdict \<open>Unverified\<close> and confidence score 0, not verdict \<open>False\<close> with a confidence of at
  least 99: the verification context reaches \<open>claim.lower()\<close> in the categorization, the
  \<open>AttributeError\<close> is caught by the orchestrator and the error record is stored.
\<close>

theorem check_fact_flat_earth:
  "snd (check_fact (env\<lparr>env_demo_mode := True\<rparr>) init_store ''The Earth is flat'' session_id) =
     \<lparr>result_id = 1, result_claim = ''The Earth is flat'', result_verdict = ''Unverified'',
      result_confidence_score = 0,
      result_explanation =
        ''Fact-checking failed due to technical error: 'dict' object has no attribute 'lower'. Please try again later.'',
      result_processing_time_ms = Some (env_elapsed_ms env), result_timestamp = env_now env,
      result_sources = None, result_session_id = session_id\<rparr>
   \<and> store (fst (check_fact (env\<lparr>env_demo_mode := True\<rparr>) init_store ''The Earth is flat''
                   session_id))
     = [snd (check_fact (env\<lparr>env_demo_mode := True\<rparr>) init_store ''The Earth is flat''
               session_id)]"
proof -
  have s: "strip ''The Earth is flat'' = ''The Earth is flat''" by code_simp
  show ?thesis
    by (simp add: check_fact_def check_fact_analysis_raises s add_result_def init_store_def
        Let_def)
qed

section \<open>Properties of the response normalizer\<close>

lemma parse_universal_response_type_error:
  "parse_universal_response (\<lambda>s. Inr [(''confidence_score'', PStr ''high'')]) ''{}''
     claim MATHEMATICAL config = Inl (TypeError ''unsupported operand type'')"
  by code_simp

lemma parse_universal_response_decode_error:
  "parse_universal_response (\<lambda>s. Inl (JSONDecodeError ''Expecting value'')) ''{oops}''
     claim category config =
   Inr (generate_intelligent_fallback_response claim category ''parsing_error'')"
  by code_simp

text \<open>
  Claim C7 (the code departs from it). The parser raises to its caller on the raw text
  \<open>Verdict: disputed\<close>, for every claim, category and configuration: the text holds no
  JSON block, the verdict line is found, and \<open>_standardize_verdict\<close> reads the member
  \<open>DISPUTED\<close>, which \<open>VerdictType\<close> does not have. The \<open>AttributeError\<close> is not among the
  exceptions the parser catches.
\<close>

theorem parse_universal_response_disputed:
  "parse_universal_response json_loads ''Verdict: disputed'' claim category config =
     Inl (AttributeError ''DISPUTED'')"
  by code_simp

section \<open>Properties of the response generator\<close>

lemma call_llama_api_failed:
  "generation_failed ollama http \<Longrightarrow> call_llama_api ollama http prompt = get_mock_response prompt"
  by (cases ollama; cases http) (auto simp: call_llama_api_def split: sum.splits)

lemma mock_response_valid_example:
  \<open>valid_fallback (call_llama_api OllamaAbsent HttpTimeout
      (''You are an expert fact-checker.'' @ [CHR 0x0A] @
       ''CLAIM TO ANALYZE: "The Earth is flat"'' @ [CHR 0x0A] @ ''CLAIM ANALYSIS:''))\<close>
  by code_simp

lemma lex_string_safe:
  "list_all json_safe xs \<Longrightarrow> ys \<noteq> [] \<Longrightarrow> lex_string acc (xs @ ys) = lex_string (rev xs @ acc) ys"
proof (induction xs arbitrary: acc)
  case Nil
  then show ?case by simp
next
  case (Cons x xs)
  from Cons.prems(2) obtain e cs where ecs: "xs @ ys = e # cs"
    by (cases "xs @ ys") auto
  have "lex_string acc (x # e # cs) = lex_string (x # acc) (e # cs)"
    using Cons.prems(1) by (simp add: json_safe_def)
  with Cons ecs show ?case by simp
qed

lemma json_lex_skip: "json_lex n (length xs + k) (xs @ ys) = json_lex n k ys"
  by (induction xs) simp_all

lemma mock_template_split:
  "mock_template claim =
     mock_head @ CHR 0x22 # (mock_before @ claim @ mock_after @ CHR 0x22 # mock_tail)"
  by (simp add: mock_template_def mock_head_def mock_before_def mock_after_def mock_tail_def)

lemma lex_tail: "json_lex n 0 mock_tail = Some mock_tail_tokens"
  by code_simp

lemma safe_before: "list_all json_safe mock_before"
  by code_simp

lemma safe_after: "list_all json_safe mock_after"
  by code_simp

lemma lex_explanation:
  assumes "list_all json_safe claim"
  shows "json_lex n 0 (CHR 0x22 # (mock_before @ claim @ mock_after @ CHR 0x22 # mock_tail)) =
           Some (TString (mock_before @ claim @ mock_after) # mock_tail_tokens)"
proof -
  let ?body = "mock_before @ claim @ mock_after"
  have tl: "mock_tail \<noteq> []" by (simp add: mock_tail_def)
  then obtain e cs where ecs: "mock_tail = e # cs" by (cases mock_tail) auto
  have safe: "list_all json_safe ?body"
    using assms safe_before safe_after by simp
  have "lex_string [] (?body @ CHR 0x22 # mock_tail) = lex_string (rev ?body @ []) (CHR 0x22 # mock_tail)"
    using safe by (rule lex_string_safe) simp
  also have "\<dots> = Some (?body, mock_tail)"
    by (simp add: ecs)
  finally have ls: "lex_string [] (?body @ CHR 0x22 # mock_tail) = Some (?body, mock_tail)" .
  have sk: "json_lex n (length (?body @ [CHR 0x22]) + 0) ((?body @ [CHR 0x22]) @ mock_tail) =
            json_lex n 0 mock_tail"
    by (rule json_lex_skip)
  have "json_lex n 0 (CHR 0x22 # (?body @ CHR 0x22 # mock_tail)) =
        map_option ((#) (TString ?body))
          (json_lex n (length (?body @ CHR 0x22 # mock_tail) - length mock_tail)
             (?body @ CHR 0x22 # mock_tail))"
    using ls by (simp add: json_space_def)
  also have "length (?body @ CHR 0x22 # mock_tail) - length mock_tail = length (?body @ [CHR 0x22]) + 0"
    by simp
  also have "?body @ CHR 0x22 # mock_tail = (?body @ [CHR 0x22]) @ mock_tail"
    by simp
  finally show ?thesis
    using sk lex_tail by simp
qed

lemma number_30:
  "match_here (rx_json_number (Suc (Suc m))) None (CHR ''3'' # CHR ''0'' # CHR '','' # T) =
     Some (''30'', None)"
  by (simp add: match_here_def rx_json_number_def seqs_def rx_opt_def rx_chr_def rx_star_def
      rx_plus_def rx_digit_def py_isdigit_def)

lemma lex_head:
  "json_lex (Suc (Suc m)) 0 (mock_head @ T) =
     map_option ((@) mock_head_tokens) (json_lex (Suc (Suc m)) 0 T)"
  by (cases "json_lex (Suc (Suc m)) 0 T")
     (simp_all add: mock_head_def mock_head_tokens_def json_space_def number_30)

lemma parse_mock_tokens:
  "parse_value (Suc (length (mock_head_tokens @ TString body # mock_tail_tokens)))
     (mock_head_tokens @ TString body # mock_tail_tokens) =
   Some (JObject
     [(''verdict'', JString ''Unverified''),
      (''confidence_score'', JNumber ''30''),
      (''explanation'', JString body),
      (''key_evidence'', JArray []),
      (''sources_needed'', JArray [JString ''authoritative databases'',
          JString ''reliable news sources'', JString ''academic sources'']),
      (''reasoning_steps'', JArray [JString ''Service unavailable'',
          JString ''Unable to access verification resources'']),
      (''caveats'', JArray [JString ''LLaMA service temporarily unavailable'',
          JString ''Manual verification recommended''])], [])"
  by code_simp

lemma mock_template_valid:
  assumes "list_all json_safe claim"
  shows "valid_fallback (mock_template claim)"
proof -
  let ?body = "mock_before @ claim @ mock_after"
  let ?s = "mock_template claim"
  have "2 \<le> length ?s" by (simp add: mock_template_def)
  then obtain m where m: "length ?s = Suc (Suc m)"
    by (metis Suc_le_D numeral_2_eq_2 Suc_le_mono)
  have "json_lex (length ?s) 0 ?s =
        Some (mock_head_tokens @ TString ?body # mock_tail_tokens)"
    unfolding m unfolding mock_template_split
    by (simp only: lex_head lex_explanation [OF assms]) simp
  then have "json_parse ?s = Some (JObject
     [(''verdict'', JString ''Unverified''),
      (''confidence_score'', JNumber ''30''),
      (''explanation'', JString ?body),
      (''key_evidence'', JArray []),
      (''sources_needed'', JArray [JString ''authoritative databases'',
          JString ''reliable news sources'', JString ''academic sources'']),
      (''reasoning_steps'', JArray [JString ''Service unavailable'',
          JString ''Unable to access verification resources'']),
      (''caveats'', JArray [JString ''LLaMA service temporarily unavailable'',
          JString ''Manual verification recommended''])])"
    unfolding json_parse_def
    by (simp only: parse_mock_tokens option.case prod.case list.case)
  then show ?thesis
    by (simp add: valid_fallback_def has_field_def)
qed

lemma find_aux_range:
  "find_aux sub s i = - 1 \<or> i \<le> find_aux sub s i"
proof (induction s arbitrary: i)
  case Nil
  then show ?case by simp
next
  case (Cons c cs)
  from Cons.IH [of "i + 1"] show ?case by auto
qed

lemma find_aux_before:
  "0 \<le> i \<Longrightarrow> i \<le> find_aux [q] s i \<Longrightarrow> q \<notin> set (take (nat (find_aux [q] s i - i)) s)"
proof (induction s arbitrary: i)
  case Nil
  then show ?case by simp
next
  case (Cons c cs)
  show ?case
  proof (cases "c = q")
    case True
    then show ?thesis by simp
  next
    case False
    then have r: "find_aux [q] (c # cs) i = find_aux [q] cs (i + 1)" by simp
    with Cons.prems find_aux_range [of "[q]" cs "i + 1"]
    have ge: "i + 1 \<le> find_aux [q] cs (i + 1)" by auto
    then have "q \<notin> set (take (nat (find_aux [q] cs (i + 1) - (i + 1))) cs)"
      using Cons.IH [of "i + 1"] Cons.prems(1) by simp
    moreover have "nat (find_aux [q] cs (i + 1) - i) = Suc (nat (find_aux [q] cs (i + 1) - (i + 1)))"
      using ge by simp
    ultimately show ?thesis using False by (simp add: r)
  qed
qed

lemma str_find_lower_bound: "- 1 \<le> str_find s sub"
  using find_aux_range [of sub s 0] by (auto simp: str_find_def)

lemma mock_claim_safe:
  assumes "\<forall>c \<in> set prompt. c \<noteq> CHR 0x5C \<and> 32 \<le> (of_char c :: nat)"
    and "0 \<le> claim_start"
    and "claim_start < str_find_from prompt [CHR 0x22] claim_start"
  shows "list_all json_safe
           (take (nat (str_find_from prompt [CHR 0x22] claim_start - claim_start))
                 (drop (nat claim_start) prompt))"
proof -
  let ?s = "drop (nat claim_start) prompt"
  from assms(2,3) have e: "str_find_from prompt [CHR 0x22] claim_start = find_aux [CHR 0x22] ?s claim_start"
    by (auto simp: str_find_from_def split: if_splits)
  with assms(3) have "claim_start \<le> find_aux [CHR 0x22] ?s claim_start" by simp
  with assms(2) have nq: "CHR 0x22 \<notin> set (take (nat (find_aux [CHR 0x22] ?s claim_start - claim_start)) ?s)"
    by (rule find_aux_before)
  have "set (take (nat (find_aux [CHR 0x22] ?s claim_start - claim_start)) ?s) \<subseteq> set prompt"
    by (meson set_take_subset set_drop_subset subset_trans)
  with assms(1) nq show ?thesis
    unfolding e list_all_iff json_safe_def by blast
qed

lemma the_claim_safe: "list_all json_safe ''the claim''"
  by code_simp

lemma get_mock_response_valid:
  assumes "\<forall>c \<in> set prompt. c \<noteq> CHR 0x5C \<and> 32 \<le> (of_char c :: nat)"
  shows "valid_fallback (get_mock_response prompt)"
proof -
  let ?start = "str_find prompt (''CLAIM TO ANALYZE: '' @ [CHR 0x22]) + 19"
  have s0: "0 \<le> ?start"
    using str_find_lower_bound [of prompt "''CLAIM TO ANALYZE: '' @ [CHR 0x22]"] by simp
  show ?thesis
  proof (cases "?start < str_find_from prompt [CHR 0x22] ?start")
    case True
    from mock_template_valid [OF mock_claim_safe [OF assms s0 True]] True show ?thesis
      by (simp add: get_mock_response_def Let_def)
  next
    case False
    with mock_template_valid [OF the_claim_safe] show ?thesis
      by (simp add: get_mock_response_def Let_def)
  qed
qed

lemma fallback_valid_without_backslash:
  assumes "generation_failed ollama http"
    and "\<forall>c \<in> set prompt. c \<noteq> CHR 0x5C \<and> 32 \<le> (of_char c :: nat)"
  shows "valid_fallback (call_llama_api ollama http prompt)"
  using assms by (simp add: call_llama_api_failed get_mock_response_valid)

text \<open>
  Claim C6 (the code departs from it). With no client and an HTTP timeout, the prompt
  whose claim is \<open>C:\Windows is a folder\<close> gets the mock response, and that text is not a
  JSON text at all: the backslash of the claim stands unescaped inside the
  \<open>explanation\<close> string, before a \<open>W\<close>.
\<close>

theorem mock_response_invalid_json:
  \<open>generation_failed OllamaAbsent HttpTimeout
   \<and> call_llama_api OllamaAbsent HttpTimeout
        (''CLAIM TO ANALYZE: "C:'' @ [CHR 0x5C] @ ''Windows is a folder"'')
     = mock_template (''C:'' @ [CHR 0x5C] @ ''Windows is a folder'')
   \<and> json_parse (call_llama_api OllamaAbsent HttpTimeout
        (''CLAIM TO ANALYZE: "C:'' @ [CHR 0x5C] @ ''Windows is a folder"'')) = None
   \<and> \<not> valid_fallback (call_llama_api OllamaAbsent HttpTimeout
        (''CLAIM TO ANALYZE: "C:'' @ [CHR 0x5C] @ ''Windows is a folder"''))\<close>
  by code_simp

end
